theory Spec2Isabelle
  imports Complex_Main
begin

section \<open>ECMAScript numbers\<close>

text \<open>
  A Number is an IEEE-754 binary64 value.  The finite ones are carried as the real number
  they denote; every arithmetic operation computes the exact real result and rounds it to
  the nearest binary64 value, ties to even (\<open>fl\<close>), overflowing to an infinity.
  The two zeros are identified: the program never divides by a variable and never raises
  to an integer power, so the sign of a zero is not observable in it.
  \<open>Math.log\<close> and \<open>Math.pow\<close> are implementation-approximated in ECMAScript; they are
  taken here as correctly rounded.
\<close>

datatype jsnum = NaN | PInf | NInf | Fin real

definition pow2 :: "int \<Rightarrow> real" where
  "pow2 e = (if 0 \<le> e then 2 ^ nat e else 1 / 2 ^ nat (- e))"

definition rne :: "real \<Rightarrow> int" where
  "rne q = (let f = \<lfloor>q\<rfloor>; d = q - of_int f in
     if d < 1/2 then f else if 1/2 < d then f + 1 else if even f then f else f + 1)"

definition fl :: "real \<Rightarrow> real" where
  "fl x = (if x = 0 then 0 else
     let e = max \<lfloor>log 2 \<bar>x\<bar>\<rfloor> (- 1022); u = pow2 (e - 52)
     in u * of_int (rne (x / u)))"

definition round_double :: "real \<Rightarrow> jsnum" where
  "round_double x = (let y = fl x in
     if pow2 1024 \<le> y then PInf else if y \<le> - pow2 1024 then NInf else Fin y)"

text \<open>A decimal literal of the source; all of them are far inside the finite range.\<close>

definition lit :: "real \<Rightarrow> jsnum" where
  "lit q = Fin (fl q)"

fun js_neg :: "jsnum \<Rightarrow> jsnum" where
  "js_neg NaN = NaN"
| "js_neg PInf = NInf"
| "js_neg NInf = PInf"
| "js_neg (Fin x) = Fin (- x)"

fun js_add :: "jsnum \<Rightarrow> jsnum \<Rightarrow> jsnum" where
  "js_add (Fin x) (Fin y) = round_double (x + y)"
| "js_add NaN b = NaN"
| "js_add a NaN = NaN"
| "js_add PInf NInf = NaN"
| "js_add NInf PInf = NaN"
| "js_add PInf b = PInf"
| "js_add NInf b = NInf"
| "js_add a PInf = PInf"
| "js_add a NInf = NInf"

definition js_sub :: "jsnum \<Rightarrow> jsnum \<Rightarrow> jsnum" where
  "js_sub a b = js_add a (js_neg b)"

definition js_sign :: "jsnum \<Rightarrow> int" where
  "js_sign a = (case a of NaN \<Rightarrow> 0 | PInf \<Rightarrow> 1 | NInf \<Rightarrow> - 1
                | Fin x \<Rightarrow> if x < 0 then - 1 else if x = 0 then 0 else 1)"

fun js_mul :: "jsnum \<Rightarrow> jsnum \<Rightarrow> jsnum" where
  "js_mul (Fin x) (Fin y) = round_double (x * y)"
| "js_mul NaN b = NaN"
| "js_mul a NaN = NaN"
| "js_mul a b = (let s = js_sign a * js_sign b
                 in if s = 0 then NaN else if 0 < s then PInf else NInf)"

text \<open>\<open>a / d\<close> for a literal divisor \<open>d\<close> that is finite and not zero.\<close>

fun js_div_lit :: "jsnum \<Rightarrow> real \<Rightarrow> jsnum" where
  "js_div_lit NaN d = NaN"
| "js_div_lit PInf d = (if 0 < d then PInf else NInf)"
| "js_div_lit NInf d = (if 0 < d then NInf else PInf)"
| "js_div_lit (Fin x) d = round_double (x / d)"

fun js_le :: "jsnum \<Rightarrow> jsnum \<Rightarrow> bool" where
  "js_le NaN b = False"
| "js_le a NaN = False"
| "js_le NInf b = True"
| "js_le a PInf = True"
| "js_le PInf b = False"
| "js_le a NInf = False"
| "js_le (Fin x) (Fin y) = (x \<le> y)"

fun js_lt :: "jsnum \<Rightarrow> jsnum \<Rightarrow> bool" where
  "js_lt NaN b = False"
| "js_lt a NaN = False"
| "js_lt PInf b = False"
| "js_lt a NInf = False"
| "js_lt NInf b = True"
| "js_lt a PInf = True"
| "js_lt (Fin x) (Fin y) = (x < y)"

definition js_ge :: "jsnum \<Rightarrow> jsnum \<Rightarrow> bool" where
  "js_ge a b = js_le b a"

definition js_gt :: "jsnum \<Rightarrow> jsnum \<Rightarrow> bool" where
  "js_gt a b = js_lt b a"

definition Math_max :: "jsnum \<Rightarrow> jsnum \<Rightarrow> jsnum" where
  "Math_max a b = (if a = NaN \<or> b = NaN then NaN else if js_le a b then b else a)"

definition Math_min :: "jsnum \<Rightarrow> jsnum \<Rightarrow> jsnum" where
  "Math_min a b = (if a = NaN \<or> b = NaN then NaN else if js_le a b then a else b)"

fun Math_log :: "jsnum \<Rightarrow> jsnum" where
  "Math_log NaN = NaN"
| "Math_log PInf = PInf"
| "Math_log NInf = NaN"
| "Math_log (Fin x) = (if x < 0 then NaN else if x = 0 then NInf else round_double (ln x))"

definition is_integer :: "real \<Rightarrow> bool" where
  "is_integer y = (of_int \<lfloor>y\<rfloor> = y)"

definition is_odd_integer :: "real \<Rightarrow> bool" where
  "is_odd_integer y = (is_integer y \<and> odd \<lfloor>y\<rfloor>)"

fun Math_pow :: "jsnum \<Rightarrow> jsnum \<Rightarrow> jsnum" where
  "Math_pow b NaN = NaN"
| "Math_pow b (Fin y) =
     (if y = 0 then Fin 1 else
      case b of
        NaN \<Rightarrow> NaN
      | PInf \<Rightarrow> if 0 < y then PInf else Fin 0
      | NInf \<Rightarrow> if 0 < y then (if is_odd_integer y then NInf else PInf) else Fin 0
      | Fin x \<Rightarrow>
          if x = 0 then (if 0 < y then Fin 0 else PInf)
          else if 0 < x then round_double (x powr y)
          else if is_odd_integer y then round_double (- ((- x) powr y))
          else if is_integer y then round_double ((- x) powr y)
          else NaN)"
| "Math_pow b PInf =
     (case b of
        NaN \<Rightarrow> NaN
      | Fin x \<Rightarrow> if 1 < \<bar>x\<bar> then PInf else if \<bar>x\<bar> = 1 then NaN else Fin 0
      | _ \<Rightarrow> PInf)"
| "Math_pow b NInf =
     (case b of
        NaN \<Rightarrow> NaN
      | Fin x \<Rightarrow> if 1 < \<bar>x\<bar> then Fin 0 else if \<bar>x\<bar> = 1 then NaN else PInf
      | _ \<Rightarrow> Fin 0)"

text \<open>
  \<open>Math.round\<close> returns an integer-valued Number (or NaN or an infinity): the nearest
  integer, a tie going up.
\<close>

datatype jsinteger = IntNaN | IntPInf | IntNInf | IntVal int

fun Math_round :: "jsnum \<Rightarrow> jsinteger" where
  "Math_round NaN = IntNaN"
| "Math_round PInf = IntPInf"
| "Math_round NInf = IntNInf"
| "Math_round (Fin x) = IntVal \<lfloor>x + 1/2\<rfloor>"


section \<open>Strings and conversions\<close>

text \<open>A string is a sequence of code units, here those below 256.\<close>

definition digit_char :: "nat \<Rightarrow> char" where
  "digit_char d = ''0123456789abcdefghijklmnopqrstuvwxyz'' ! d"

function to_radix :: "nat \<Rightarrow> nat \<Rightarrow> string" where
  "to_radix R n = (if R < 2 \<or> n < R then [digit_char n]
                   else to_radix R (n div R) @ [digit_char (n mod R)])"
  by pat_completeness auto
termination
  by (relation "measure (\<lambda>(R, n). n)") auto

declare to_radix.simps [simp del]

text \<open>\<open>Number.prototype.toString(radix)\<close> on an integer-valued Number.\<close>

fun toString_radix :: "jsinteger \<Rightarrow> nat \<Rightarrow> string" where
  "toString_radix IntNaN R = ''NaN''"
| "toString_radix IntPInf R = ''Infinity''"
| "toString_radix IntNInf R = ''-Infinity''"
| "toString_radix (IntVal n) R =
     (if n < 0 then CHR ''-'' # to_radix R (nat (- n)) else to_radix R (nat n))"

definition is_ws :: "char \<Rightarrow> bool" where
  "is_ws c = ((of_char c :: nat) \<in> {9, 10, 11, 12, 13, 32, 160})"

definition digit_val :: "char \<Rightarrow> nat option" where
  "digit_val c = (let n = of_char c :: nat in
     if 48 \<le> n \<and> n \<le> 57 then Some (n - 48)
     else if 97 \<le> n \<and> n \<le> 122 then Some (n - 87)
     else if 65 \<le> n \<and> n \<le> 90 then Some (n - 55)
     else None)"

definition is_radix_digit :: "nat \<Rightarrow> char \<Rightarrow> bool" where
  "is_radix_digit R c = (case digit_val c of None \<Rightarrow> False | Some d \<Rightarrow> d < R)"

definition digits_val :: "nat \<Rightarrow> string \<Rightarrow> nat" where
  "digits_val R s =
     foldl (\<lambda>acc c. acc * R + (case digit_val c of None \<Rightarrow> 0 | Some d \<Rightarrow> d)) 0 s"

text \<open>\<open>parseInt(string, radix)\<close> on a string argument.\<close>

definition parseInt :: "string \<Rightarrow> nat \<Rightarrow> jsnum" where
  "parseInt str radix =
     (let S = dropWhile is_ws str;
          neg = (case S of [] \<Rightarrow> False | c # cs \<Rightarrow> c = CHR ''-'');
          S1 = (case S of [] \<Rightarrow> []
                | c # cs \<Rightarrow> if c = CHR ''+'' \<or> c = CHR ''-'' then cs else S)
      in if radix \<noteq> 0 \<and> (radix < 2 \<or> 36 < radix) then NaN
         else
           let stripPrefix = (radix = 0 \<or> radix = 16);
               hasPrefix = (stripPrefix \<and> (take 2 S1 = ''0x'' \<or> take 2 S1 = ''0X''));
               S2 = (if hasPrefix then drop 2 S1 else S1);
               R = (if hasPrefix then 16 else if radix = 0 then 10 else radix);
               Z = takeWhile (is_radix_digit R) S2
           in if Z = [] then NaN
              else let n = int (digits_val R Z)
                   in round_double (of_int (if neg then - n else n)))"

text \<open>\<open>String.prototype.substr(start, length)\<close> for the non-negative arguments used.\<close>

definition substr :: "string \<Rightarrow> nat \<Rightarrow> nat \<Rightarrow> string" where
  "substr s start len = take len (drop start s)"


section \<open>Values\<close>

text \<open>
  Property values are the primitive values of the language.  They reach the widget from
  JSON messages, where \<open>on\<close> is a boolean or null, \<open>color\<close> a string and
  \<open>colorTemperature\<close> a number or a numeric string.
\<close>

datatype jsval = Undefined | Null | Bool bool | Num jsnum | Str string

fun truthy :: "jsval \<Rightarrow> bool" where
  "truthy Undefined = False"
| "truthy Null = False"
| "truthy (Bool b) = b"
| "truthy (Num n) = (case n of NaN \<Rightarrow> False | Fin x \<Rightarrow> x \<noteq> 0 | _ \<Rightarrow> True)"
| "truthy (Str s) = (s \<noteq> [])"

definition is_dec_digit :: "char \<Rightarrow> bool" where
  "is_dec_digit c = is_radix_digit 10 c"

definition trim_ws :: "string \<Rightarrow> string" where
  "trim_ws s = rev (dropWhile is_ws (rev (dropWhile is_ws s)))"

definition pow10 :: "int \<Rightarrow> real" where
  "pow10 e = (if 0 \<le> e then 10 ^ nat e else 1 / 10 ^ nat (- e))"

definition parse_exponent :: "string \<Rightarrow> int option" where
  "parse_exponent s =
     (case s of
        [] \<Rightarrow> Some 0
      | c # cs \<Rightarrow>
          if c = CHR ''e'' \<or> c = CHR ''E'' then
            (let neg = (case cs of [] \<Rightarrow> False | d # ds \<Rightarrow> d = CHR ''-'');
                 body = (case cs of [] \<Rightarrow> []
                         | d # ds \<Rightarrow> if d = CHR ''+'' \<or> d = CHR ''-'' then ds else cs)
             in if body \<noteq> [] \<and> list_all is_dec_digit body
                then Some (if neg then - int (digits_val 10 body) else int (digits_val 10 body))
                else None)
          else None)"

definition parse_unsigned_decimal :: "string \<Rightarrow> jsnum option" where
  "parse_unsigned_decimal s =
     (if s = ''Infinity'' then Some PInf
      else
        let ip = takeWhile is_dec_digit s;
            r1 = dropWhile is_dec_digit s;
            dot = (case r1 of [] \<Rightarrow> False | c # cs \<Rightarrow> c = CHR ''.'');
            fp = (if dot then takeWhile is_dec_digit (tl r1) else []);
            r2 = (if dot then dropWhile is_dec_digit (tl r1) else r1)
        in if ip = [] \<and> fp = [] then None
           else case parse_exponent r2 of
                  None \<Rightarrow> None
                | Some ex \<Rightarrow>
                    Some (round_double
                      ((of_nat (digits_val 10 ip) + of_nat (digits_val 10 fp) / 10 ^ length fp)
                        * pow10 ex)))"

definition parse_radix_literal :: "nat \<Rightarrow> string \<Rightarrow> jsnum" where
  "parse_radix_literal R ds =
     (if ds \<noteq> [] \<and> list_all (is_radix_digit R) ds
      then round_double (of_nat (digits_val R ds)) else NaN)"

text \<open>The numeric value of a string (\<open>StringToNumber\<close>).\<close>

definition StringToNumber :: "string \<Rightarrow> jsnum" where
  "StringToNumber str =
     (let t = trim_ws str in
      if t = [] then Fin 0
      else if take 2 t = ''0x'' \<or> take 2 t = ''0X'' then parse_radix_literal 16 (drop 2 t)
      else if take 2 t = ''0o'' \<or> take 2 t = ''0O'' then parse_radix_literal 8 (drop 2 t)
      else if take 2 t = ''0b'' \<or> take 2 t = ''0B'' then parse_radix_literal 2 (drop 2 t)
      else if hd t = CHR ''-'' then
        (case parse_unsigned_decimal (tl t) of None \<Rightarrow> NaN | Some n \<Rightarrow> js_neg n)
      else if hd t = CHR ''+'' then
        (case parse_unsigned_decimal (tl t) of None \<Rightarrow> NaN | Some n \<Rightarrow> n)
      else (case parse_unsigned_decimal t of None \<Rightarrow> NaN | Some n \<Rightarrow> n))"

fun ToNumber :: "jsval \<Rightarrow> jsnum" where
  "ToNumber Undefined = NaN"
| "ToNumber Null = Fin 0"
| "ToNumber (Bool b) = (if b then Fin 1 else Fin 0)"
| "ToNumber (Num n) = n"
| "ToNumber (Str s) = StringToNumber s"


section \<open>The conversion of a colour temperature\<close>

text \<open>
  \<open>ColorLight.prototype.colorTemperatureToRGB\<close>.  The three channels are computed from
  the temperature divided by 100; each is rounded and printed in base 16 with no padding.
\<close>

definition red_channel :: "jsnum \<Rightarrow> jsnum" where
  "red_channel temperature =
     (if js_le temperature (lit 66) then lit 255
      else
        let r = js_sub temperature (lit 60);
            r = js_mul (lit 329.698727446) (Math_pow r (js_neg (lit 0.1332047592)));
            r = Math_max r (lit 0);
            r = Math_min r (lit 255)
        in r)"

definition green_unclamped :: "jsnum \<Rightarrow> jsnum" where
  "green_unclamped temperature =
     (if js_le temperature (lit 66) then
        let g = temperature;
            g = js_sub (js_mul (lit 99.4708025861) (Math_log g)) (lit 161.1195681661)
        in g
      else
        let g = js_sub temperature (lit 60);
            g = js_mul (lit 288.1221695283) (Math_pow g (js_neg (lit 0.0755148492)))
        in g)"

definition green_channel :: "jsnum \<Rightarrow> jsnum" where
  "green_channel temperature =
     (let g = green_unclamped temperature;
          g = Math_max g (lit 0);
          g = Math_min g (lit 255)
      in g)"

definition blue_channel :: "jsnum \<Rightarrow> jsnum" where
  "blue_channel temperature =
     (if js_ge temperature (lit 66) then lit 255
      else if js_le temperature (lit 19) then lit 0
      else
        let b = js_sub temperature (lit 10);
            b = js_sub (js_mul (lit 138.5177312231) (Math_log b)) (lit 305.0447927307);
            b = Math_max b (lit 0);
            b = Math_min b (lit 255)
        in b)"

definition colorTemperatureToRGB :: "jsval \<Rightarrow> string" where
  "colorTemperatureToRGB temperature =
     (let temperature = js_div_lit (ToNumber temperature) 100;
          r = toString_radix (Math_round (red_channel temperature)) 16;
          g = toString_radix (Math_round (green_channel temperature)) 16;
          b = toString_radix (Math_round (blue_channel temperature)) 16
      in ''#'' @ r @ g @ b)"

section \<open>The widget\<close>

text \<open>
  The state of a \<open>ColorLight\<close>: the cache \<open>this.properties\<close>, the registered
  capabilities \<open>this.displayedProperties\<close> (each with the \<open>href\<close> of its property), the
  format, and the three elements the constructor looks up.  In the \<open>svg\<close> format the
  constructor returns before looking them up, so each may be absent.  Of an element only what
  the widget writes is kept: the text of the label, the value assigned to the \<open>fill\<close> of the
  icon path, and the background and class list of the \<open>color-light\<close> element.
  \<open>console\<close> collects the lines written with \<open>console.error\<close>.
\<close>

record element =
  background :: string
  classList :: "string set"

record widget =
  properties :: "string \<rightharpoonup> jsval"
  displayedProperties :: "string \<rightharpoonup> string"
  format :: string
  colorLight :: "element option"
  colorLightLabel :: "string option"
  colorLightIconPath :: "jsval option"
  detailUpdates :: "string list"
  shownOn :: bool
  console :: "string list"

datatype error = TypeError | SyntaxError | Error string

text \<open>A call either completes or throws; what it wrote before throwing stays written.\<close>

datatype outcome = Done widget | Threw error widget

definition and_then :: "outcome \<Rightarrow> (widget \<Rightarrow> outcome) \<Rightarrow> outcome" where
  "and_then r f = (case r of Done w \<Rightarrow> f w | Threw e w \<Rightarrow> Threw e w)"

fun state_of :: "outcome \<Rightarrow> widget" where
  "state_of (Done w) = w"
| "state_of (Threw e w) = w"

text \<open>
  The constructor registers \<open>on\<close>, and then \<open>color\<close> if the description has it, otherwise
  \<open>colorTemperature\<close> if the description has that.  The description is given by the
  \<open>href\<close> of each of its properties.
\<close>

definition register_capabilities ::
  "(string \<rightharpoonup> string) option \<Rightarrow> error + (string \<rightharpoonup> string)" where
  "register_capabilities description_properties =
     (case description_properties of
        None \<Rightarrow> Inr Map.empty
      | Some ps \<Rightarrow>
          (case ps ''on'' of
             None \<Rightarrow> Inl TypeError
           | Some on_href \<Rightarrow>
               (case ps ''color'' of
                  Some color_href \<Rightarrow> Inr [''on'' \<mapsto> on_href, ''color'' \<mapsto> color_href]
                | None \<Rightarrow>
                    (case ps ''colorTemperature'' of
                       Some ct_href \<Rightarrow>
                         Inr [''on'' \<mapsto> on_href, ''colorTemperature'' \<mapsto> ct_href]
                     | None \<Rightarrow> Inr [''on'' \<mapsto> on_href]))))"

subsection \<open>Writes to the elements\<close>

definition set_label :: "string \<Rightarrow> widget \<Rightarrow> outcome" where
  "set_label text w =
     (case colorLightLabel w of
        None \<Rightarrow> Threw TypeError w
      | Some old \<Rightarrow> Done (w\<lparr>colorLightLabel := Some text\<rparr>))"

definition set_background :: "string \<Rightarrow> widget \<Rightarrow> outcome" where
  "set_background bg w =
     (case colorLight w of
        None \<Rightarrow> Threw TypeError w
      | Some el \<Rightarrow> Done (w\<lparr>colorLight := Some (el\<lparr>background := bg\<rparr>)\<rparr>))"

definition set_fill :: "jsval \<Rightarrow> widget \<Rightarrow> outcome" where
  "set_fill v w =
     (case colorLightIconPath w of
        None \<Rightarrow> Threw TypeError w
      | Some old \<Rightarrow> Done (w\<lparr>colorLightIconPath := Some v\<rparr>))"

definition classList_add :: "string \<Rightarrow> widget \<Rightarrow> outcome" where
  "classList_add c w =
     (case colorLight w of
        None \<Rightarrow> Threw TypeError w
      | Some el \<Rightarrow> Done (w\<lparr>colorLight := Some (el\<lparr>classList := insert c (classList el)\<rparr>)\<rparr>))"

definition classList_remove :: "string \<Rightarrow> widget \<Rightarrow> outcome" where
  "classList_remove c w =
     (case colorLight w of
        None \<Rightarrow> Threw TypeError w
      | Some el \<Rightarrow> Done (w\<lparr>colorLight := Some (el\<lparr>classList := classList el - {c}\<rparr>)\<rparr>))"

text \<open>
  Modelled from the spec: the detail views (\<open>OnOffDetail\<close>, \<open>ColorDetail\<close>,
  \<open>ColorTemperatureDetail\<close>) are not among the sources.  A detail is updated through a call
  \<open>update()\<close> with no arguments and reads the cache; the call is recorded.  Reaching the
  detail of a capability that is not registered throws.
\<close>

definition detail_update :: "string \<Rightarrow> widget \<Rightarrow> outcome" where
  "detail_update name w =
     (case displayedProperties w name of
        None \<Rightarrow> Threw TypeError w
      | Some h \<Rightarrow> Done (w\<lparr>detailUpdates := detailUpdates w @ [name]\<rparr>))"

text \<open>
  Modelled from the spec: \<open>showOn\<close> and \<open>showOff\<close> are inherited from \<open>OnOffSwitch\<close>, which
  is not among the sources; they toggle the on visual state.
\<close>

definition showOn :: "widget \<Rightarrow> outcome" where
  "showOn w = Done (w\<lparr>shownOn := True\<rparr>)"

definition showOff :: "widget \<Rightarrow> outcome" where
  "showOff w = Done (w\<lparr>shownOn := False\<rparr>)"

subsection \<open>The icon\<close>

definition getIconColor :: "widget \<Rightarrow> jsval" where
  "getIconColor w =
     (case properties w ''color'' of
        Some color \<Rightarrow> color
      | None \<Rightarrow>
          (case properties w ''colorTemperature'' of
             Some temperature \<Rightarrow> Str (colorTemperatureToRGB temperature)
           | None \<Rightarrow> Str ''#ffffff''))"

definition luminance :: "jsnum \<Rightarrow> jsnum \<Rightarrow> jsnum \<Rightarrow> jsnum" where
  "luminance r g b =
     js_add (js_add (js_mul r (lit 0.299)) (js_mul g (lit 0.587))) (js_mul b (lit 0.114))"

text \<open>The test of \<open>updateIcon\<close> on the icon colour, once that is known to be a string.\<close>

definition bright :: "string \<Rightarrow> bool" where
  "bright iconColor =
     (let r = parseInt (substr iconColor 1 2) 16;
          g = parseInt (substr iconColor 3 2) 16;
          b = parseInt (substr iconColor 5 2) 16
      in js_gt (luminance r g b) (lit 186))"

definition updateIcon :: "widget \<Rightarrow> outcome" where
  "updateIcon w =
     (let iconColor = getIconColor w in
      and_then (set_fill iconColor w) (\<lambda>w.
        case iconColor of
          Str s \<Rightarrow>
            if bright s
            then classList_add ''bright-color'' w
            else classList_remove ''bright-color'' w
        | _ \<Rightarrow> Threw TypeError w))"

subsection \<open>Updates\<close>

definition updateOn :: "widget \<Rightarrow> jsval \<Rightarrow> outcome" where
  "updateOn w on =
     (let w = w\<lparr>properties := (properties w)(''on'' \<mapsto> on)\<rparr> in
      if on = Null then Done w
      else
        let onoff = (if truthy on then ''on'' else ''off'') in
        and_then (set_label onoff w) (\<lambda>w.
        and_then (if format w = ''htmlDetail'' then detail_update ''on'' w else Done w) (\<lambda>w.
        and_then (set_background (if truthy on then ''white'' else []) w) (\<lambda>w.
        if truthy on then showOn w else showOff w))))"

definition updateColor :: "widget \<Rightarrow> jsval \<Rightarrow> outcome" where
  "updateColor w color =
     (if \<not> truthy color then Done w
      else
        let w = w\<lparr>properties := (properties w)(''color'' \<mapsto> color)\<rparr> in
        if colorLight w = None then Done w
        else
          and_then (if format w = ''htmlDetail'' then detail_update ''color'' w else Done w)
            updateIcon)"

definition updateColorTemperature :: "widget \<Rightarrow> jsval \<Rightarrow> outcome" where
  "updateColorTemperature w temperature =
     (let temperature = (case temperature of Str s \<Rightarrow> Num (parseInt s 10) | _ \<Rightarrow> temperature);
          w = w\<lparr>properties := (properties w)(''colorTemperature'' \<mapsto> temperature)\<rparr>
      in if colorLight w = None then Done w
         else
           and_then
             (if format w = ''htmlDetail'' then detail_update ''colorTemperature'' w else Done w)
             updateIcon)"

definition updateProperty :: "widget \<Rightarrow> string \<Rightarrow> jsval \<Rightarrow> outcome" where
  "updateProperty w name v =
     and_then (if name = ''on'' then updateOn w v else Done w) (\<lambda>w.
     and_then (if name = ''color'' then updateColor w v else Done w) (\<lambda>w.
     if name = ''colorTemperature'' then updateColorTemperature w v else Done w))"

subsection \<open>Requests\<close>

text \<open>
  A set operation sends one PUT request and returns; the handlers of its promise run when the
  request settles, on the state the widget has then.  \<open>payload\<close> is the object given to
  \<open>JSON.stringify\<close>, as the list of its keys and values.  The headers come from the API
  module and are left out.  A request settles as a transport failure with its reason, or as
  a response with a status and a body; \<open>response.json()\<close> gives the parsed body, an object or
  another JSON value, or rejects when the body is not JSON (\<open>None\<close>).
\<close>

record request =
  url :: string
  http_method :: string
  payload :: "(string \<times> jsval) list"

datatype json = JsonObject "string \<rightharpoonup> jsval" | JsonValue jsval

datatype settled = Failed error | Response nat "json option"

fun member :: "json \<Rightarrow> string \<Rightarrow> error + jsval" where
  "member (JsonObject m) k = Inr (case m k of None \<Rightarrow> Undefined | Some v \<Rightarrow> v)"
| "member (JsonValue Null) k = Inl TypeError"
| "member (JsonValue Undefined) k = Inl TypeError"
| "member (JsonValue v) k = Inr Undefined"

fun error_text :: "error \<Rightarrow> string" where
  "error_text TypeError = ''TypeError''"
| "error_text SyntaxError = ''SyntaxError''"
| "error_text (Error message) = ''Error: '' @ message"

definition console_error :: "string \<Rightarrow> widget \<Rightarrow> widget" where
  "console_error line w = w\<lparr>console := console w @ [line]\<rparr>"

definition setColor :: "widget \<Rightarrow> jsval \<Rightarrow> error + request" where
  "setColor w color =
     (let payload = [(''color'', color)] in
      case displayedProperties w ''color'' of
        None \<Rightarrow> Inl TypeError
      | Some href \<Rightarrow> Inr \<lparr>url = href, http_method = ''PUT'', payload = payload\<rparr>)"

definition setColor_settled :: "widget \<Rightarrow> settled \<Rightarrow> widget" where
  "setColor_settled w s =
     (let result =
        (case s of
           Failed reason \<Rightarrow> Threw reason w
         | Response status body \<Rightarrow>
             if status = 200 then
               (case body of
                  None \<Rightarrow> Threw SyntaxError w
                | Some json \<Rightarrow>
                    (case member json ''color'' of
                       Inl e \<Rightarrow> Threw e w
                     | Inr color \<Rightarrow> updateColor w color))
             else Threw (Error (''Status '' @ to_radix 10 status @ '' trying to set color'')) w)
      in case result of
           Done w \<Rightarrow> w
         | Threw e w \<Rightarrow> console_error (''Error trying to set color: '' @ error_text e) w)"

definition setColorTemperature :: "widget \<Rightarrow> jsval \<Rightarrow> error + request" where
  "setColorTemperature w temperature =
     (let temperature = (case temperature of Str s \<Rightarrow> Num (parseInt s 10) | _ \<Rightarrow> temperature);
          payload = [(''colorTemperature'', temperature)]
      in case displayedProperties w ''colorTemperature'' of
           None \<Rightarrow> Inl TypeError
         | Some href \<Rightarrow> Inr \<lparr>url = href, http_method = ''PUT'', payload = payload\<rparr>)"

definition setColorTemperature_settled :: "widget \<Rightarrow> settled \<Rightarrow> widget" where
  "setColorTemperature_settled w s =
     (let result =
        (case s of
           Failed reason \<Rightarrow> Threw reason w
         | Response status body \<Rightarrow>
             if status = 200 then
               (case body of
                  None \<Rightarrow> Threw SyntaxError w
                | Some json \<Rightarrow>
                    (case member json ''colorTemperature'' of
                       Inl e \<Rightarrow> Threw e w
                     | Inr temperature \<Rightarrow> updateColorTemperature w temperature))
             else Threw (Error (''Status '' @ to_radix 10 status
                                 @ '' trying to set color temperature'')) w)
      in case result of
           Done w \<Rightarrow> w
         | Threw e w \<Rightarrow>
             console_error (''Error trying to set color temperature: '' @ error_text e) w)"


section \<open>Notions of the specification\<close>

text \<open>
  The three channels as \<open>colorTemperatureToRGB\<close> prints them, and the shape of its result:
  \<open>#\<close> and then from one to six lower-case digits of base 16.
\<close>

definition rounded_channels :: "jsval \<Rightarrow> jsinteger \<times> jsinteger \<times> jsinteger" where
  "rounded_channels temperature =
     (let temperature = js_div_lit (ToNumber temperature) 100
      in (Math_round (red_channel temperature),
          Math_round (green_channel temperature),
          Math_round (blue_channel temperature)))"

definition hex_digit :: "char \<Rightarrow> bool" where
  "hex_digit c = (c \<in> set ''0123456789abcdef'')"

definition hex_digits :: "string \<Rightarrow> bool" where
  "hex_digits ds = list_all hex_digit ds"

definition short_hex_color :: "string \<Rightarrow> bool" where
  "short_hex_color s =
     (case s of
        [] \<Rightarrow> False
      | c # ds \<Rightarrow> c = CHR ''#'' \<and> 1 \<le> length ds \<and> length ds \<le> 6 \<and> hex_digits ds)"


text \<open>
  The luminance as the spec states it, \<open>L = 0.299 r + 0.587 g + 0.114 b\<close> in exact
  arithmetic, to be compared with \<open>luminance\<close>, which the program computes in binary64;
  and a colour of the form \<open>#rrggbb\<close> with the channel that starts at a position.
\<close>

definition exact_luminance :: "int \<Rightarrow> int \<Rightarrow> int \<Rightarrow> real" where
  "exact_luminance r g b = 0.299 * of_int r + 0.587 * of_int g + 0.114 * of_int b"

definition well_formed_color :: "string \<Rightarrow> bool" where
  "well_formed_color s =
     (length s = 7 \<and> take 1 s = ''#'' \<and> list_all (is_radix_digit 16) (drop 1 s))"

definition channel :: "string \<Rightarrow> nat \<Rightarrow> int" where
  "channel s start = int (digits_val 16 (substr s start 2))"


section \<open>Example widgets\<close>

text \<open>
  A lamp whose description has \<open>on\<close> and \<open>colorTemperature\<close> only, and one that has
  \<open>color\<close>, as the constructor leaves them in the \<open>html\<close> format: the cache empty, the three
  elements of the markup of \<open>iconView\<close> found, with no background, the class
  \<open>color-light\<close>, the label \<open>ON\<close> and no fill assigned yet.  In the \<open>svg\<close> format the
  constructor returns before it looks the elements up.
\<close>

definition white_lamp_capabilities :: "string \<rightharpoonup> string" where
  "white_lamp_capabilities =
     [''on'' \<mapsto> ''/things/lamp/properties/on'',
      ''colorTemperature'' \<mapsto> ''/things/lamp/properties/colorTemperature'']"

definition color_lamp_capabilities :: "string \<rightharpoonup> string" where
  "color_lamp_capabilities =
     [''on'' \<mapsto> ''/things/lamp/properties/on'',
      ''color'' \<mapsto> ''/things/lamp/properties/color'']"

definition html_widget :: "(string \<rightharpoonup> string) \<Rightarrow> widget" where
  "html_widget capabilities =
     \<lparr>properties = Map.empty,
      displayedProperties = capabilities,
      format = ''html'',
      colorLight = Some \<lparr>background = [], classList = {''color-light''}\<rparr>,
      colorLightLabel = Some ''ON'',
      colorLightIconPath = Some Undefined,
      detailUpdates = [],
      shownOn = False,
      console = []\<rparr>"

text \<open>The same widget in the \<open>htmlDetail\<close> format, where every update also updates a detail.\<close>

definition detail_widget :: "(string \<rightharpoonup> string) \<Rightarrow> widget" where
  "detail_widget capabilities = (html_widget capabilities)\<lparr>format := ''htmlDetail''\<rparr>"

definition svg_widget :: "(string \<rightharpoonup> string) \<Rightarrow> widget" where
  "svg_widget capabilities =
     \<lparr>properties = Map.empty,
      displayedProperties = capabilities,
      format = ''svg'',
      colorLight = None,
      colorLightLabel = None,
      colorLightIconPath = None,
      detailUpdates = [],
      shownOn = False,
      console = []\<rparr>"


text \<open>
  The lamp with a colour, after \<open>#112233\<close> was cached; and the lamp without the colour
  capability after a colour temperature of 0 and then a colour were cached.
\<close>

definition cached_color_lamp :: widget where
  "cached_color_lamp =
     (html_widget color_lamp_capabilities)\<lparr>properties := [''color'' \<mapsto> Str ''#112233'']\<rparr>"

definition spurious_lamp :: widget where
  "spurious_lamp =
     (html_widget white_lamp_capabilities)
       \<lparr>properties := [''colorTemperature'' \<mapsto> Num (Fin 0), ''color'' \<mapsto> Str ''#112233'']\<rparr>"


text \<open>Lamps with a colour cached: white, and the colour whose exact luminance is 186.\<close>

definition white_lit_lamp :: widget where
  "white_lit_lamp =
     (html_widget color_lamp_capabilities)\<lparr>properties := [''color'' \<mapsto> Str ''#ffffff'']\<rparr>"

definition boundary_lamp :: widget where
  "boundary_lamp =
     (html_widget color_lamp_capabilities)\<lparr>properties := [''color'' \<mapsto> Str ''#aae216'']\<rparr>"


section \<open>Rounding to binary64\<close>

text \<open>
  Facts about \<open>fl\<close>: it fixes every value \<open>m * 2^k\<close> with a 53-bit \<open>m\<close>, it is monotone on the
  non-negative reals, and its relative error in the normal range is at most \<open>2^-53\<close>.
\<close>

lemma pow2_powr: "pow2 e = 2 powr (of_int e)"
  unfolding pow2_def
  apply (auto simp: powr_realpow[symmetric])
  apply (simp add: powr_minus divide_inverse flip: powr_realpow)
  done

lemma pow2_pos: "0 < pow2 e"
  by (simp add: pow2_powr)

lemma pow2_add: "pow2 (a + b) = pow2 a * pow2 b"
  by (simp add: pow2_powr powr_add)

lemma pow2_mono: "a \<le> b \<Longrightarrow> pow2 a \<le> pow2 b"
  by (simp add: pow2_powr)

lemma pow2_53: "pow2 53 = 2 ^ 53" and pow2_52: "pow2 52 = 2 ^ 52"
  by (simp_all add: pow2_def)

lemma rne_of_int: "rne (of_int n) = n"
  by (simp add: rne_def)

lemma rne_bounds: "\<lfloor>q\<rfloor> \<le> rne q" "rne q \<le> \<lfloor>q\<rfloor> + 1"
  by (simp_all add: rne_def Let_def)

lemma rne_error: "\<bar>of_int (rne q) - q\<bar> \<le> 1/2"
  unfolding rne_def Let_def by (auto; linarith)

lemma rne_mono: "p \<le> q \<Longrightarrow> rne p \<le> rne q"
proof -
  assume pq: "p \<le> q"
  have fm: "\<lfloor>p\<rfloor> \<le> \<lfloor>q\<rfloor>" using pq by (rule floor_mono)
  show ?thesis
  proof (cases "\<lfloor>p\<rfloor> = \<lfloor>q\<rfloor>")
    case True
    then show ?thesis using pq unfolding rne_def Let_def by auto
  next
    case False
    then have "\<lfloor>p\<rfloor> + 1 \<le> \<lfloor>q\<rfloor>" using fm by linarith
    then show ?thesis using rne_bounds(2)[of p] rne_bounds(1)[of q] by linarith
  qed
qed

lemma floor_log2_eq: "pow2 e \<le> \<bar>x\<bar> \<Longrightarrow> \<bar>x\<bar> < pow2 (e + 1) \<Longrightarrow> \<lfloor>log 2 \<bar>x\<bar>\<rfloor> = e"
proof -
  assume a: "pow2 e \<le> \<bar>x\<bar>" and b: "\<bar>x\<bar> < pow2 (e + 1)"
  have "0 < \<bar>x\<bar>" using a pow2_pos[of e] by linarith
  then show ?thesis using a b
    by (subst floor_log_eq_powr_iff) (auto simp: pow2_powr)
qed

lemma floor_log2_bounds:
  assumes "x \<noteq> 0"
  shows "pow2 \<lfloor>log 2 \<bar>x\<bar>\<rfloor> \<le> \<bar>x\<bar>" "\<bar>x\<bar> < pow2 (\<lfloor>log 2 \<bar>x\<bar>\<rfloor> + 1)"
proof -
  have "0 < \<bar>x\<bar>" using assms by simp
  then have "2 powr (of_int \<lfloor>log 2 \<bar>x\<bar>\<rfloor>) \<le> \<bar>x\<bar> \<and> \<bar>x\<bar> < 2 powr (of_int (\<lfloor>log 2 \<bar>x\<bar>\<rfloor> + 1))"
    using floor_log_eq_powr_iff[of "\<bar>x\<bar>" 2 "\<lfloor>log 2 \<bar>x\<bar>\<rfloor>"] by simp
  then show "pow2 \<lfloor>log 2 \<bar>x\<bar>\<rfloor> \<le> \<bar>x\<bar>" "\<bar>x\<bar> < pow2 (\<lfloor>log 2 \<bar>x\<bar>\<rfloor> + 1)"
    by (simp_all add: pow2_powr)
qed

lemma fl_eval:
  assumes "pow2 e \<le> \<bar>x\<bar>" "\<bar>x\<bar> < pow2 (e + 1)" "- 1022 \<le> e"
  shows "fl x = pow2 (e - 52) * of_int (rne (x / pow2 (e - 52)))"
proof -
  have "x \<noteq> 0" using assms(1) pow2_pos[of e] by auto
  then show ?thesis using floor_log2_eq[OF assms(1,2)] assms(3)
    by (simp add: fl_def Let_def max_def)
qed

lemma fl_dyadic:
  assumes m: "\<bar>m\<bar> < 2 ^ 53" and k: "- 1074 \<le> k"
  shows "fl (of_int m * pow2 k) = of_int m * pow2 k"
proof (cases "m = 0")
  case True
  then show ?thesis by (simp add: fl_def)
next
  case False
  define x where "x = of_int m * pow2 k"
  have x0: "x \<noteq> 0" using False pow2_pos[of k] by (simp add: x_def)
  define e0 where "e0 = \<lfloor>log 2 \<bar>x\<bar>\<rfloor>"
  define e where "e = max e0 (- 1022)"
  have lo: "pow2 e0 \<le> \<bar>x\<bar>" and hi: "\<bar>x\<bar> < pow2 (e0 + 1)"
    using floor_log2_bounds[OF x0] by (simp_all add: e0_def)
  have "\<bar>x\<bar> = of_int \<bar>m\<bar> * pow2 k" using pow2_pos[of k] by (simp add: x_def abs_mult)
  also have "\<dots> < of_int (2 ^ 53) * pow2 k"
    using m pow2_pos[of k] by (intro mult_strict_right_mono) (simp_all flip: of_int_less_iff)
  also have "\<dots> = pow2 (53 + k)" by (simp add: pow2_add pow2_53)
  finally have "pow2 e0 < pow2 (53 + k)" using lo by linarith
  then have "e0 < 53 + k" by (simp add: pow2_powr)
  then have ek: "0 \<le> k - e + 52" using k by (simp add: e_def)
  have "x / pow2 (e - 52) = of_int m * pow2 (k - e + 52)"
  proof -
    have "pow2 k = pow2 (k - e + 52) * pow2 (e - 52)"
      by (simp flip: pow2_add)
    then show ?thesis using pow2_pos[of "e - 52"] by (simp add: x_def)
  qed
  also have "\<dots> = of_int (m * 2 ^ nat (k - e + 52))"
    using ek by (simp add: pow2_def)
  finally have q: "x / pow2 (e - 52) = of_int (m * 2 ^ nat (k - e + 52))" .
  have "fl x = pow2 (e - 52) * of_int (rne (x / pow2 (e - 52)))"
    using x0 by (simp add: fl_def Let_def e_def e0_def)
  also have "\<dots> = pow2 (e - 52) * (x / pow2 (e - 52))"
    unfolding q rne_of_int ..
  also have "\<dots> = x" using pow2_pos[of "e - 52"] by simp
  finally show ?thesis by (simp add: x_def)
qed

lemma fl_of_int: "\<bar>n\<bar> < 2 ^ 53 \<Longrightarrow> fl (of_int n) = of_int n"
  using fl_dyadic[of n 0] by (simp add: pow2_def)

lemma fl_nonneg: "0 \<le> x \<Longrightarrow> 0 \<le> fl x"
proof -
  assume x: "0 \<le> x"
  show ?thesis
  proof (cases "x = 0")
    case True then show ?thesis by (simp add: fl_def)
  next
    case False
    define u where "u = pow2 (max \<lfloor>log 2 \<bar>x\<bar>\<rfloor> (- 1022) - 52)"
    have u: "0 < u" by (simp add: u_def pow2_pos)
    have "0 \<le> x / u" using x u by simp
    then have "0 \<le> \<lfloor>x / u\<rfloor>" by simp
    then have "0 \<le> rne (x / u)" using rne_bounds(1)[of "x / u"] by linarith
    then show ?thesis using False u by (simp add: fl_def Let_def u_def[symmetric])
  qed
qed

lemma fl_mono_pos:
  assumes "0 < x" "x \<le> y"
  shows "fl x \<le> fl y"
proof -
  define ex0 where "ex0 = \<lfloor>log 2 \<bar>x\<bar>\<rfloor>"
  define ey0 where "ey0 = \<lfloor>log 2 \<bar>y\<bar>\<rfloor>"
  define ex where "ex = max ex0 (- 1022)"
  define ey where "ey = max ey0 (- 1022)"
  have y: "0 < y" using assms by linarith
  have flx: "fl x = pow2 (ex - 52) * of_int (rne (x / pow2 (ex - 52)))"
    using assms(1) by (simp add: fl_def Let_def ex_def ex0_def)
  have fly: "fl y = pow2 (ey - 52) * of_int (rne (y / pow2 (ey - 52)))"
    using y by (simp add: fl_def Let_def ey_def ey0_def)
  have "log 2 x \<le> log 2 y" using assms by simp
  then have "ex0 \<le> ey0" using assms y by (simp add: ex0_def ey0_def floor_mono)
  then have exy: "ex \<le> ey" by (simp add: ex_def ey_def)
  show ?thesis
  proof (cases "ex = ey")
    case True
    have "x / pow2 (ey - 52) \<le> y / pow2 (ey - 52)"
      using assms pow2_pos[of "ey - 52"] by (simp add: divide_right_mono)
    then have "rne (x / pow2 (ey - 52)) \<le> rne (y / pow2 (ey - 52))" by (rule rne_mono)
    then show ?thesis unfolding flx fly True
      using pow2_pos[of "ey - 52"] by (simp add: mult_left_mono)
  next
    case False
    then have lt: "ex + 1 \<le> ey" using exy by linarith
    then have ey_eq: "ey = ey0" by (simp add: ey_def ex_def)
    have xhi: "x < pow2 (ex + 1)"
    proof -
      have "x < pow2 (ex0 + 1)" using floor_log2_bounds(2)[of x] assms(1) by (simp add: ex0_def)
      also have "\<dots> \<le> pow2 (ex + 1)" by (rule pow2_mono) (simp add: ex_def)
      finally show ?thesis .
    qed
    have ylo: "pow2 ey \<le> y" using floor_log2_bounds(1)[of y] y by (simp add: ey_eq ey0_def)
    have "x / pow2 (ex - 52) \<le> of_int (2 ^ 53)"
    proof -
      have "pow2 (ex + 1) = of_int (2 ^ 53) * pow2 (ex - 52)"
        using pow2_add[of 53 "ex - 52"] by (simp add: pow2_53 add.commute)
      then show ?thesis using xhi pow2_pos[of "ex - 52"] by (simp add: pos_divide_le_eq)
    qed
    then have "rne (x / pow2 (ex - 52)) \<le> rne (of_int (2 ^ 53))" by (rule rne_mono)
    then have "of_int (rne (x / pow2 (ex - 52))) \<le> (of_int (2 ^ 53) :: real)"
      unfolding rne_of_int by (simp only: of_int_le_iff)
    then have "fl x \<le> pow2 (ex - 52) * of_int (2 ^ 53)"
      unfolding flx using pow2_pos[of "ex - 52"] by (simp add: mult_left_mono)
    also have "\<dots> = pow2 (ex + 1)"
      using pow2_add[of "ex - 52" 53] by (simp add: pow2_53 add.commute)
    also have "\<dots> \<le> pow2 ey" using lt by (rule pow2_mono)
    finally have A: "fl x \<le> pow2 ey" .
    have "of_int (2 ^ 52) \<le> y / pow2 (ey - 52)"
    proof -
      have "pow2 ey = of_int (2 ^ 52) * pow2 (ey - 52)"
        using pow2_add[of 52 "ey - 52"] by (simp add: pow2_52)
      then show ?thesis using ylo pow2_pos[of "ey - 52"] by (simp add: pos_le_divide_eq)
    qed
    then have "rne (of_int (2 ^ 52)) \<le> rne (y / pow2 (ey - 52))" by (rule rne_mono)
    then have "(of_int (2 ^ 52) :: real) \<le> of_int (rne (y / pow2 (ey - 52)))"
      unfolding rne_of_int by (simp only: of_int_le_iff)
    then have "pow2 (ey - 52) * of_int (2 ^ 52) \<le> fl y"
      unfolding fly using pow2_pos[of "ey - 52"] by (simp add: mult_left_mono)
    moreover have "pow2 (ey - 52) * of_int (2 ^ 52) = pow2 ey"
      using pow2_add[of "ey - 52" 52] by (simp add: pow2_52)
    ultimately show ?thesis using A by linarith
  qed
qed

lemma fl_mono: "0 \<le> x \<Longrightarrow> x \<le> y \<Longrightarrow> fl x \<le> fl y"
  by (cases "x = 0") (use fl_nonneg[of y] fl_mono_pos[of x y] in \<open>auto simp: fl_def\<close>)

lemma fl_error:
  assumes "pow2 (- 1022) \<le> \<bar>x\<bar>"
  shows "\<bar>fl x - x\<bar> \<le> \<bar>x\<bar> / 2 ^ 53"
proof -
  have x0: "x \<noteq> 0" using assms pow2_pos[of "-1022"] by auto
  define e where "e = \<lfloor>log 2 \<bar>x\<bar>\<rfloor>"
  have lo: "pow2 e \<le> \<bar>x\<bar>" using floor_log2_bounds(1)[OF x0] by (simp add: e_def)
  have hi: "\<bar>x\<bar> < pow2 (e + 1)" using floor_log2_bounds(2)[OF x0] by (simp add: e_def)
  have "pow2 (- 1022) < pow2 (e + 1)" using assms hi by linarith
  then have e: "- 1022 \<le> e" by (simp add: pow2_powr)
  define u where "u = pow2 (e - 52)"
  have u: "0 < u" by (simp add: u_def pow2_pos)
  have flx: "fl x = u * of_int (rne (x / u))"
    using fl_eval[OF lo hi e] by (simp add: u_def)
  have "fl x - x = u * (of_int (rne (x / u)) - x / u)"
    using u by (simp add: flx algebra_simps)
  then have "\<bar>fl x - x\<bar> = u * \<bar>of_int (rne (x / u)) - x / u\<bar>"
    using u by (simp add: abs_mult)
  also have "\<dots> \<le> u * (1/2)"
    using rne_error[of "x / u"] u by (intro mult_left_mono) simp_all
  also have "\<dots> = pow2 e / 2 ^ 53"
    using pow2_add[of "e - 52" 52] by (simp add: u_def pow2_52)
  also have "\<dots> \<le> \<bar>x\<bar> / 2 ^ 53" using lo by (simp add: divide_right_mono)
  finally show ?thesis .
qed

section \<open>Evaluation\<close>

lemma pow2_1024_gt: "x \<le> 2 ^ 53 \<Longrightarrow> x < pow2 1024"
proof -
  have "(2::real) ^ 53 < 2 ^ 1024" by (rule power_strict_increasing) simp_all
  moreover have "pow2 1024 = 2 ^ 1024" by (simp add: pow2_def)
  ultimately show "x \<le> 2 ^ 53 \<Longrightarrow> x < pow2 1024" by linarith
qed

lemma round_double_of_int:
  assumes "\<bar>n\<bar> < 2 ^ 53"
  shows "round_double (of_int n) = Fin (of_int n)"
proof -
  have a: "\<bar>of_int n :: real\<bar> \<le> 2 ^ 53"
    using assms by (metis less_imp_le of_int_abs of_int_le_iff of_int_numeral of_int_power)
  then have "(of_int n :: real) \<le> 2 ^ 53" "- (2 ^ 53) \<le> (of_int n :: real)" by linarith+
  then have "of_int n < pow2 1024" "- pow2 1024 < (of_int n :: real)"
    using pow2_1024_gt[of "of_int n"] pow2_1024_gt[of "- of_int n"] by simp_all
  then show ?thesis using fl_of_int[OF assms] by (simp add: round_double_def Let_def)
qed

lemma round_double_0: "round_double 0 = Fin 0"
  using round_double_of_int[of 0] by simp

lemma lit_of_int: "\<bar>n\<bar> < 2 ^ 53 \<Longrightarrow> lit (of_int n) = Fin (of_int n)"
  by (simp add: lit_def fl_of_int)

lemma lit_nums: "lit 0 = Fin 0" "lit 10 = Fin 10" "lit 19 = Fin 19" "lit 60 = Fin 60"
  "lit 66 = Fin 66" "lit 186 = Fin 186" "lit 255 = Fin 255"
  using lit_of_int[of 0] lit_of_int[of 10] lit_of_int[of 19] lit_of_int[of 60]
    lit_of_int[of 66] lit_of_int[of 186] lit_of_int[of 255]
  by simp_all

lemma fl_ge_one: "1 \<le> x \<Longrightarrow> 1 \<le> fl x"
  using fl_mono[of 1 x] fl_of_int[of 1] by simp

lemma fl_pos: "1 \<le> x \<Longrightarrow> 0 < fl x"
  using fl_ge_one[of x] by linarith

lemma js_mul_lit_NInf: "1 \<le> q \<Longrightarrow> js_mul (lit q) NInf = NInf"
  using fl_pos[of q] by (simp add: lit_def js_sign_def)

lemma js_sub_NInf_lit: "js_sub NInf (lit q) = NInf"
  by (simp add: js_sub_def lit_def)

lemma js_mul_lit_NaN: "js_mul (lit q) NaN = NaN"
  by (simp add: lit_def)

lemma js_sub_NaN_lit: "js_sub NaN (lit q) = NaN"
  by (simp add: js_sub_def lit_def)

lemmas char_eval = is_ws_def digit_val_def is_radix_digit_def digits_val_def

lemma parseInt_2700: "parseInt ''2700'' 10 = Fin 2700"
  using round_double_of_int[of 2700]
  by (simp add: parseInt_def char_eval Let_def)

lemma parseInt_warm: "parseInt ''warm'' 10 = NaN"
  by (simp add: parseInt_def char_eval Let_def)

text \<open>At 0 Kelvin the logarithm is \<open>-Infinity\<close>, the green channel clamps to 0, and the
  string has four digits.\<close>

lemma colorTemperatureToRGB_0: "colorTemperatureToRGB (Num (Fin 0)) = ''#ff00''"
proof -
  have t: "js_div_lit (ToNumber (Num (Fin 0))) 100 = Fin 0" by (simp add: round_double_0)
  have r: "red_channel (Fin 0) = Fin 255" by (simp add: red_channel_def lit_nums)
  have "green_unclamped (Fin 0) = NInf"
    by (simp add: green_unclamped_def lit_nums js_mul_lit_NInf js_sub_NInf_lit)
  then have g: "green_channel (Fin 0) = Fin 0"
    by (simp add: green_channel_def lit_nums Math_max_def Math_min_def)
  have b: "blue_channel (Fin 0) = Fin 0" by (simp add: blue_channel_def lit_nums js_ge_def)
  show ?thesis
    unfolding colorTemperatureToRGB_def t Let_def r g b
    by (simp add: to_radix.simps digit_char_def)
qed


text \<open>Below 0 Kelvin the logarithm is NaN, and the string has seven characters again.\<close>

lemma colorTemperatureToRGB_below_zero: "colorTemperatureToRGB (Num (Fin (- 100))) = ''#ffNaN0''"
proof -
  have t: "js_div_lit (ToNumber (Num (Fin (- 100)))) 100 = Fin (- 1)"
    using round_double_of_int[of "- 1"] by simp
  have r: "red_channel (Fin (- 1)) = Fin 255" by (simp add: red_channel_def lit_nums)
  have "green_unclamped (Fin (- 1)) = NaN"
    by (simp add: green_unclamped_def lit_nums js_mul_lit_NaN js_sub_NaN_lit)
  then have g: "green_channel (Fin (- 1)) = NaN"
    by (simp add: green_channel_def Math_max_def Math_min_def)
  have b: "blue_channel (Fin (- 1)) = Fin 0" by (simp add: blue_channel_def lit_nums js_ge_def)
  show ?thesis
    unfolding colorTemperatureToRGB_def t Let_def r g b
    by (simp add: to_radix.simps digit_char_def)
qed


section \<open>The cache under the updates\<close>

lemmas dom_steps = and_then_def set_label_def set_background_def set_fill_def
  classList_add_def classList_remove_def detail_update_def showOn_def showOff_def

lemma properties_updateIcon: "properties (state_of (updateIcon w)) = properties w"
  by (auto simp: updateIcon_def dom_steps Let_def split: option.splits jsval.splits)

lemma properties_updateOn: "properties (state_of (updateOn w v)) = (properties w)(''on'' \<mapsto> v)"
  by (auto simp: updateOn_def dom_steps Let_def split: option.splits)

lemma properties_updateColor:
  "properties (state_of (updateColor w v)) =
     (if truthy v then (properties w)(''color'' \<mapsto> v) else properties w)"
  by (auto simp: updateColor_def and_then_def detail_update_def Let_def properties_updateIcon
           split: option.splits)

lemma properties_updateColorTemperature:
  "properties (state_of (updateColorTemperature w v)) =
     (properties w)(''colorTemperature'' \<mapsto>
        (case v of Str s \<Rightarrow> Num (parseInt s 10) | _ \<Rightarrow> v))"
  by (auto simp: updateColorTemperature_def and_then_def detail_update_def Let_def
                 properties_updateIcon split: option.splits)

lemma and_then_Done: "and_then (Done w) f = f w" "and_then r Done = r"
  by (simp_all add: and_then_def split: outcome.splits)

lemma updateProperty_names:
  "updateProperty w ''on'' v = updateOn w v"
  "updateProperty w ''color'' v = updateColor w v"
  "updateProperty w ''colorTemperature'' v = updateColorTemperature w v"
  by (simp_all add: updateProperty_def and_then_Done)

text \<open>
  In the \<open>htmlDetail\<close> format an update reaches for the detail of its capability.  When
  the capability is not registered the update throws there: \<open>updateOn\<close> after the cache and
  the label, before the background; \<open>updateColor\<close> after the cache, before the icon.  A
  description without properties registers nothing, and a description without \<open>color\<close>
  registers no colour.
\<close>

lemma updateOn_detail_missing:
  "register_capabilities None = Inr Map.empty
   \<and> updateOn (detail_widget Map.empty) (Bool True) =
       Threw TypeError ((detail_widget Map.empty)
         \<lparr>properties := [''on'' \<mapsto> Bool True], colorLightLabel := Some ''on''\<rparr>)
   \<and> map_option background
         (colorLight (state_of (updateOn (detail_widget Map.empty) (Bool True)))) = Some []"
  by (simp add: register_capabilities_def detail_widget_def html_widget_def updateOn_def
        and_then_def set_label_def detail_update_def Let_def)

lemma updateColor_detail_missing:
  "register_capabilities (Some white_lamp_capabilities) = Inr white_lamp_capabilities
   \<and> updateColor (detail_widget white_lamp_capabilities) (Str ''#112233'') =
       Threw TypeError ((detail_widget white_lamp_capabilities)
         \<lparr>properties := [''color'' \<mapsto> Str ''#112233'']\<rparr>)"
  by (simp add: register_capabilities_def white_lamp_capabilities_def detail_widget_def
        html_widget_def updateColor_def and_then_def detail_update_def Let_def)

text \<open>The cache of \<open>spurious_lamp\<close> is what the two updates leave.\<close>

lemma spurious_lamp_reached:
  "properties (state_of (updateProperty (state_of (updateProperty
       (html_widget white_lamp_capabilities) ''colorTemperature'' (Num (Fin 0))))
       ''color'' (Str ''#112233'')))
   = properties spurious_lamp"
  by (simp add: updateProperty_names properties_updateColor
        properties_updateColorTemperature spurious_lamp_def html_widget_def)


section \<open>The channels\<close>

text \<open>
  For a temperature that is not negative every channel is a number between 0 and 255 once it
  is clamped: before the clamp it may be an infinity, but not NaN.
\<close>

lemma round_double_not_NaN: "round_double x \<noteq> NaN"
  by (simp add: round_double_def Let_def)

lemma round_double_ge:
  assumes "0 \<le> a" "a \<le> x" "fl a = a"
  shows "round_double x = PInf \<or> (\<exists>y. round_double x = Fin y \<and> a \<le> y)"
proof -
  have "a \<le> fl x" using fl_mono[OF assms(1,2)] assms(3) by simp
  moreover have "0 < pow2 1024" by (rule pow2_pos)
  ultimately show ?thesis using assms(1) by (simp add: round_double_def Let_def)
qed

lemma round_double_between:
  assumes "0 \<le> a" "a \<le> x" "x \<le> b" "fl a = a" "fl b = b" "b \<le> 2 ^ 53"
  shows "\<exists>y. round_double x = Fin y \<and> a \<le> y \<and> y \<le> b"
proof -
  have lo: "a \<le> fl x" using fl_mono[OF assms(1,2)] assms(4) by simp
  have hi: "fl x \<le> b" using fl_mono[of x b] assms by simp
  have "fl x < pow2 1024" using hi assms(6) pow2_1024_gt[of "fl x"] by linarith
  moreover have "- pow2 1024 < fl x" using lo assms(1) pow2_pos[of 1024] by linarith
  ultimately show ?thesis using lo hi by (simp add: round_double_def Let_def)
qed

lemma clamp_range:
  assumes "v \<noteq> NaN"
  shows "\<exists>c. Math_min (Math_max v (lit 0)) (lit 255) = Fin c \<and> 0 \<le> c \<and> c \<le> 255"
  using assms by (cases v) (auto simp: Math_max_def Math_min_def lit_nums)

lemma Math_log_not_NaN: "0 \<le> x \<Longrightarrow> Math_log (Fin x) \<noteq> NaN"
  by (simp add: round_double_not_NaN)

lemma js_mul_lit_not_NaN:
  assumes "1 \<le> q" "v \<noteq> NaN"
  shows "js_mul (lit q) v \<noteq> NaN"
  using assms fl_pos[of q]
  by (cases v) (simp_all add: lit_def js_sign_def round_double_not_NaN)

lemma js_sub_lit_not_NaN: "v \<noteq> NaN \<Longrightarrow> js_sub v (lit q) \<noteq> NaN"
  by (cases v) (simp_all add: js_sub_def lit_def round_double_not_NaN)

lemma Math_pow_not_NaN:
  assumes "v = PInf \<or> (\<exists>x. v = Fin x \<and> 0 < x)"
  shows "Math_pow v (js_neg (lit q)) \<noteq> NaN"
  using assms by (auto simp: lit_def round_double_not_NaN)

lemma sub_lit_pos:
  assumes "a < y" "fl a = a" "0 \<le> a" "fl (a - d) = a - d" "0 < a - d" "fl d = d"
  shows "js_sub (Fin y) (lit d) = PInf \<or> (\<exists>x. js_sub (Fin y) (lit d) = Fin x \<and> 0 < x)"
proof -
  have "js_sub (Fin y) (lit d) = round_double (y - d)"
    by (simp add: js_sub_def lit_def assms(6))
  moreover have "round_double (y - d) = PInf \<or> (\<exists>x. round_double (y - d) = Fin x \<and> a - d \<le> x)"
    using assms by (intro round_double_ge) simp_all
  ultimately show ?thesis using assms(5) by auto
qed

lemma fl_small_ints: "fl 6 = 6" "fl 9 = 9" "fl 10 = 10" "fl 19 = 19" "fl 60 = 60" "fl 66 = 66"
  "fl 400 = 400" "fl 0 = 0"
  using fl_of_int[of 6] fl_of_int[of 9] fl_of_int[of 10] fl_of_int[of 19] fl_of_int[of 60]
    fl_of_int[of 66] fl_of_int[of 400] fl_of_int[of 0]
  by simp_all

lemma red_channel_range:
  assumes "0 \<le> y"
  shows "\<exists>c. red_channel (Fin y) = Fin c \<and> 0 \<le> c \<and> c \<le> 255"
proof (cases "y \<le> 66")
  case True
  then show ?thesis by (simp add: red_channel_def lit_nums)
next
  case False
  then have "66 < y" by simp
  then have "js_sub (Fin y) (lit 60) = PInf \<or> (\<exists>x. js_sub (Fin y) (lit 60) = Fin x \<and> 0 < x)"
    by (intro sub_lit_pos[where a = 66]) (simp_all add: fl_small_ints)
  then have "Math_pow (js_sub (Fin y) (lit 60)) (js_neg (lit 0.1332047592)) \<noteq> NaN"
    by (rule Math_pow_not_NaN)
  then have "js_mul (lit 329.698727446)
      (Math_pow (js_sub (Fin y) (lit 60)) (js_neg (lit 0.1332047592))) \<noteq> NaN"
    by (intro js_mul_lit_not_NaN) simp_all
  from clamp_range[OF this] show ?thesis using False
    by (simp add: red_channel_def lit_nums Let_def)
qed

lemma green_unclamped_not_NaN:
  assumes "0 \<le> y"
  shows "green_unclamped (Fin y) \<noteq> NaN"
proof (cases "y \<le> 66")
  case True
  have "js_mul (lit 99.4708025861) (Math_log (Fin y)) \<noteq> NaN"
    using Math_log_not_NaN[OF assms] by (intro js_mul_lit_not_NaN) simp_all
  then have "js_sub (js_mul (lit 99.4708025861) (Math_log (Fin y))) (lit 161.1195681661) \<noteq> NaN"
    by (rule js_sub_lit_not_NaN)
  then show ?thesis using True by (simp add: green_unclamped_def lit_nums Let_def)
next
  case False
  then have "66 < y" by simp
  then have "js_sub (Fin y) (lit 60) = PInf \<or> (\<exists>x. js_sub (Fin y) (lit 60) = Fin x \<and> 0 < x)"
    by (intro sub_lit_pos[where a = 66]) (simp_all add: fl_small_ints)
  then have "Math_pow (js_sub (Fin y) (lit 60)) (js_neg (lit 0.0755148492)) \<noteq> NaN"
    by (rule Math_pow_not_NaN)
  then have "js_mul (lit 288.1221695283)
      (Math_pow (js_sub (Fin y) (lit 60)) (js_neg (lit 0.0755148492))) \<noteq> NaN"
    by (intro js_mul_lit_not_NaN) simp_all
  then show ?thesis using False by (simp add: green_unclamped_def lit_nums Let_def)
qed

lemma green_channel_range:
  assumes "0 \<le> y"
  shows "\<exists>c. green_channel (Fin y) = Fin c \<and> 0 \<le> c \<and> c \<le> 255"
  using clamp_range[OF green_unclamped_not_NaN[OF assms]]
  by (simp add: green_channel_def Let_def)

lemma blue_channel_range:
  assumes "0 \<le> y"
  shows "\<exists>c. blue_channel (Fin y) = Fin c \<and> 0 \<le> c \<and> c \<le> 255"
proof -
  consider "66 \<le> y" | "y \<le> 19" | "19 < y" "y < 66" by linarith
  then show ?thesis
  proof cases
    case 1
    then show ?thesis by (simp add: blue_channel_def lit_nums js_ge_def)
  next
    case 2
    then show ?thesis by (simp add: blue_channel_def lit_nums js_ge_def)
  next
    case 3
    then have "js_sub (Fin y) (lit 10) = PInf \<or> (\<exists>x. js_sub (Fin y) (lit 10) = Fin x \<and> 0 < x)"
      by (intro sub_lit_pos[where a = 19]) (simp_all add: fl_small_ints)
    then have "Math_log (js_sub (Fin y) (lit 10)) \<noteq> NaN"
      by (auto simp: round_double_not_NaN)
    then have "js_mul (lit 138.5177312231) (Math_log (js_sub (Fin y) (lit 10))) \<noteq> NaN"
      by (intro js_mul_lit_not_NaN) simp_all
    then have "js_sub (js_mul (lit 138.5177312231) (Math_log (js_sub (Fin y) (lit 10))))
                 (lit 305.0447927307) \<noteq> NaN"
      by (rule js_sub_lit_not_NaN)
    from clamp_range[OF this] show ?thesis using 3
      by (simp add: blue_channel_def lit_nums js_ge_def Let_def)
  qed
qed

lemma digit_char_hex: "d < 16 \<Longrightarrow> hex_digit (digit_char d)"
proof -
  assume "d < 16"
  then have "d \<in> set [0..<16]" by simp
  then show ?thesis
    unfolding digit_char_def hex_digit_def by (auto simp: upt_rec)
qed

lemma to_radix_16_byte:
  assumes "n < 256"
  shows "hex_digits (to_radix 16 n) \<and> 1 \<le> length (to_radix 16 n) \<and> length (to_radix 16 n) \<le> 2"
proof (cases "n < 16")
  case True
  then show ?thesis
    by (subst (1 2 3) to_radix.simps) (simp add: hex_digits_def digit_char_hex)
next
  case False
  have d: "n div 16 < 16" using assms by simp
  have "to_radix 16 n = to_radix 16 (n div 16) @ [digit_char (n mod 16)]"
    using False by (subst to_radix.simps) simp
  also have "to_radix 16 (n div 16) = [digit_char (n div 16)]"
    using d by (subst to_radix.simps) simp
  finally show ?thesis using d by (simp add: hex_digits_def digit_char_hex)
qed

lemma round_byte:
  assumes "0 \<le> c" "c \<le> 255"
  shows "\<exists>n. Math_round (Fin c) = IntVal n \<and> 0 \<le> n \<and> n \<le> 255"
proof -
  have "0 \<le> \<lfloor>c + 1/2\<rfloor>" using assms by simp
  moreover have "\<lfloor>c + 1/2\<rfloor> \<le> 255" using assms by (simp add: floor_le_iff)
  ultimately show ?thesis by simp
qed


lemma toString_byte:
  assumes "0 \<le> n" "n \<le> 255"
  shows "toString_radix (IntVal n) 16 = to_radix 16 (nat n)"
    and "hex_digits (to_radix 16 (nat n))"
    and "1 \<le> length (to_radix 16 (nat n))"
    and "length (to_radix 16 (nat n)) \<le> 2"
  using assms to_radix_16_byte[of "nat n"] by simp_all

lemma colorTemperatureToRGB_shape:
  assumes "0 \<le> y" "js_div_lit (ToNumber v) 100 = Fin y"
  shows "\<exists>r g b. rounded_channels v = (IntVal r, IntVal g, IntVal b)
           \<and> 0 \<le> r \<and> r \<le> 255 \<and> 0 \<le> g \<and> g \<le> 255 \<and> 0 \<le> b \<and> b \<le> 255
           \<and> colorTemperatureToRGB v =
               CHR ''#'' # to_radix 16 (nat r) @ to_radix 16 (nat g) @ to_radix 16 (nat b)"
proof -
  obtain cr where cr: "red_channel (Fin y) = Fin cr" "0 \<le> cr" "cr \<le> 255"
    using red_channel_range[OF assms(1)] by blast
  obtain cg where cg: "green_channel (Fin y) = Fin cg" "0 \<le> cg" "cg \<le> 255"
    using green_channel_range[OF assms(1)] by blast
  obtain cb where cb: "blue_channel (Fin y) = Fin cb" "0 \<le> cb" "cb \<le> 255"
    using blue_channel_range[OF assms(1)] by blast
  obtain r where r: "Math_round (Fin cr) = IntVal r" "0 \<le> r" "r \<le> 255"
    using round_byte[OF cr(2,3)] by blast
  obtain g where g: "Math_round (Fin cg) = IntVal g" "0 \<le> g" "g \<le> 255"
    using round_byte[OF cg(2,3)] by blast
  obtain b where b: "Math_round (Fin cb) = IntVal b" "0 \<le> b" "b \<le> 255"
    using round_byte[OF cb(2,3)] by blast
  have "rounded_channels v = (IntVal r, IntVal g, IntVal b)"
    unfolding rounded_channels_def assms(2) Let_def cr(1) cg(1) cb(1) r(1) g(1) b(1) ..
  moreover have "colorTemperatureToRGB v =
      CHR ''#'' # to_radix 16 (nat r) @ to_radix 16 (nat g) @ to_radix 16 (nat b)"
    unfolding colorTemperatureToRGB_def assms(2) Let_def cr(1) cg(1) cb(1) r(1) g(1) b(1)
    using r(2) g(2) b(2) by simp
  ultimately show ?thesis using r g b by blast
qed

lemma scaled_temperature:
  assumes "0 \<le> a" "a * 100 \<le> K" "K \<le> b * 100" "fl a = a" "fl b = b" "b \<le> 2 ^ 53"
  shows "\<exists>y. js_div_lit (ToNumber (Num (Fin K))) 100 = Fin y \<and> a \<le> y \<and> y \<le> b"
  using round_double_between[of a "K / 100" b] assms by simp


section \<open>The logarithm of 66\<close>

text \<open>
  The logarithm of 66 lies between 67/16 and 1073/256, by the Taylor polynomial of the
  exponential at an eighth of each bound.
\<close>

lemma exp_upper_taylor:
  fixes x :: real
  assumes "0 \<le> x" "x \<le> 1"
  shows "exp x \<le> (\<Sum>m<n. x ^ m / fact m) + 3 * x ^ n / fact n"
proof -
  obtain t where t: "\<bar>t\<bar> \<le> \<bar>x\<bar>" "exp x = (\<Sum>m<n. x ^ m / fact m) + (exp t / fact n) * x ^ n"
    using Maclaurin_exp_le[of x n] by blast
  have "t \<le> 1" using t(1) assms by linarith
  then have "exp t \<le> exp 1" by simp
  then have "exp t \<le> 3" using exp_le by linarith
  then have "exp t / fact n \<le> 3 / fact n" by (simp add: divide_right_mono)
  then have "(exp t / fact n) * x ^ n \<le> (3 / fact n) * x ^ n"
    using assms(1) by (intro mult_right_mono) simp_all
  then show ?thesis using t(2) by simp
qed

lemma exp_lower_taylor:
  fixes x :: real
  assumes "0 \<le> x"
  shows "(\<Sum>m<n. x ^ m / fact m) \<le> exp x"
proof -
  obtain t where t: "exp x = (\<Sum>m<n. x ^ m / fact m) + (exp t / fact n) * x ^ n"
    using Maclaurin_exp_le[of x n] by blast
  have "0 \<le> (exp t / fact n) * x ^ n" using assms by simp
  then show ?thesis using t by linarith
qed

lemma exp_67_128: "exp (67/128) \<le> (84391/50000 :: real)"
proof -
  have "exp (67/128 :: real) \<le> (\<Sum>m<8. (67/128) ^ m / fact m) + 3 * (67/128) ^ 8 / fact 8"
    by (rule exp_upper_taylor) simp_all
  also have "\<dots> \<le> (84391/50000 :: real)"
    by (simp add: eval_nat_numeral fact_numeral)
  finally show ?thesis .
qed

lemma exp_1073_2048: "(1688643/1000000 :: real) \<le> exp (1073/2048)"
proof -
  have "(1688643/1000000 :: real) \<le> (\<Sum>m<8. (1073/2048 :: real) ^ m / fact m)"
    by (simp add: eval_nat_numeral fact_numeral)
  also have "\<dots> \<le> exp (1073/2048)"
    by (rule exp_lower_taylor) simp
  finally show ?thesis .
qed

lemma ln_66_lower: "67/16 \<le> ln (66::real)"
proof -
  have "exp (67/16 :: real) = exp (of_nat 8 * (67/128))" by simp
  also have "\<dots> = exp (67/128) ^ 8" by (rule exp_of_nat_mult)
  also have "\<dots> \<le> (84391/50000 :: real) ^ 8"
    using exp_67_128 by (intro power_mono) simp_all
  also have "\<dots> \<le> 66" by (simp add: power_divide)
  finally have "exp (67/16 :: real) \<le> 66" .
  then have "ln (exp (67/16 :: real)) \<le> ln 66" by (subst ln_le_cancel_iff) simp_all
  then show ?thesis by (simp only: ln_exp)
qed

lemma ln_66_upper: "ln (66::real) \<le> 1073/256"
proof -
  have "(66::real) \<le> (1688643/1000000 :: real) ^ 8" by (simp add: power_divide)
  also have "\<dots> \<le> exp (1073/2048) ^ 8"
    using exp_1073_2048 by (intro power_mono) simp_all
  also have "\<dots> = exp (of_nat 8 * (1073/2048))" by (rule exp_of_nat_mult[symmetric])
  also have "\<dots> = exp (1073/256)" by simp
  finally have "(66::real) \<le> exp (1073/256)" .
  then have "ln (66::real) \<le> ln (exp (1073/256))" by (subst ln_le_cancel_iff) simp_all
  then show ?thesis by (simp only: ln_exp)
qed


lemma fl_frac:
  assumes "\<bar>m\<bar> < 2 ^ 53" "k \<le> 1074"
  shows "fl (of_int m / 2 ^ k) = of_int m / 2 ^ k"
proof -
  have "pow2 (- int k) = 1 / 2 ^ k" by (simp add: pow2_def)
  then show ?thesis using fl_dyadic[of m "- int k"] assms by simp
qed

lemma fl_between:
  assumes "0 \<le> a" "a \<le> x" "x \<le> b" "fl a = a" "fl b = b"
  shows "a \<le> fl x \<and> fl x \<le> b"
  using fl_mono[of a x] fl_mono[of x b] assms by simp

lemma dyadics:
  "fl (67/16) = 67/16" "fl (1073/256) = 1073/256"
  "fl (3183/32) = 3183/32" "fl (6367/64) = 6367/64"
  "fl (10311/64) = 10311/64" "fl (1289/8) = 1289/8"
  "fl (213261/512) = 213261/512" "fl (6831791/16384) = 6831791/16384"
  "fl (130765/512) = 130765/512" "fl (4192175/16384) = 4192175/16384"
  using fl_frac[of 67 4] fl_frac[of 1073 8] fl_frac[of 3183 5] fl_frac[of 6367 6]
    fl_frac[of 10311 6] fl_frac[of 1289 3] fl_frac[of 213261 9] fl_frac[of 6831791 14]
    fl_frac[of 130765 9] fl_frac[of 4192175 14]
  by simp_all

lemma green_unclamped_66:
  "\<exists>G. green_unclamped (Fin 66) = Fin G \<and> 130765/512 \<le> G \<and> G \<le> 4192175/16384"
proof -
  obtain L where L: "Math_log (Fin 66) = Fin L" "67/16 \<le> L" "L \<le> 1073/256"
    using round_double_between[of "67/16" "ln 66" "1073/256"] ln_66_lower ln_66_upper
    by (auto simp: dyadics)
  define c1 where "c1 = fl 99.4708025861"
  define c2 where "c2 = fl 161.1195681661"
  have c1: "3183/32 \<le> c1" "c1 \<le> 6367/64"
    using fl_between[of "3183/32" "99.4708025861" "6367/64"] by (simp_all add: c1_def dyadics)
  have c2: "10311/64 \<le> c2" "c2 \<le> 1289/8"
    using fl_between[of "10311/64" "161.1195681661" "1289/8"] by (simp_all add: c2_def dyadics)
  have lo: "213261/512 \<le> c1 * L"
  proof -
    have "(3183/32) * (67/16) \<le> c1 * L" using c1 L by (intro mult_mono) simp_all
    then show ?thesis by simp
  qed
  have hi: "c1 * L \<le> 6831791/16384"
  proof -
    have "c1 * L \<le> (6367/64) * (1073/256)" using c1 L by (intro mult_mono) simp_all
    then show ?thesis by simp
  qed
  obtain P where P: "round_double (c1 * L) = Fin P" "213261/512 \<le> P" "P \<le> 6831791/16384"
    using round_double_between[of "213261/512" "c1 * L" "6831791/16384"] lo hi
    by (auto simp: dyadics)
  obtain G where G: "round_double (P - c2) = Fin G" "130765/512 \<le> G" "G \<le> 4192175/16384"
    using round_double_between[of "130765/512" "P - c2" "4192175/16384"] P c2
    by (auto simp: dyadics)
  have "green_unclamped (Fin 66) =
      js_sub (js_mul (lit 99.4708025861) (Math_log (Fin 66))) (lit 161.1195681661)"
    by (simp add: green_unclamped_def lit_nums Let_def)
  also have "\<dots> = Fin G"
    unfolding L(1) lit_def c1_def[symmetric] c2_def[symmetric] using P(1) G(1)
    by (simp add: js_sub_def)
  finally show ?thesis using G by blast
qed

section \<open>The rounding error of the luminance\<close>

text \<open>
  The luminance is computed with five rounded operations on three rounded weights.  For
  channels from 0 to 255 the result differs from the exact luminance by less than
  \<open>10^-8\<close>, while an exact luminance other than 186 is at least \<open>10^-3\<close> away from 186.
\<close>

lemma fl_abs_error:
  assumes "\<bar>x\<bar> \<le> 1024"
  shows "\<bar>fl x - x\<bar> \<le> 1 / 1000000000000"
proof (cases "pow2 (- 1022) \<le> \<bar>x\<bar>")
  case True
  have "\<bar>fl x - x\<bar> \<le> \<bar>x\<bar> / 2 ^ 53" using fl_error[OF True] .
  also have "\<dots> \<le> 1024 / 2 ^ 53" using assms by (simp add: divide_right_mono)
  also have "\<dots> \<le> 1 / 1000000000000" by simp
  finally show ?thesis .
next
  case False
  show ?thesis
  proof (cases "x = 0")
    case True
    then show ?thesis by (simp add: fl_def)
  next
    case x0: False
    define e0 where "e0 = \<lfloor>log 2 \<bar>x\<bar>\<rfloor>"
    have "pow2 e0 \<le> \<bar>x\<bar>" using floor_log2_bounds(1)[OF x0] by (simp add: e0_def)
    then have "pow2 e0 < pow2 (- 1022)" using False by linarith
    then have "e0 < - 1022" by (simp add: pow2_powr)
    then have m: "max e0 (- 1022) = - 1022" by simp
    define u where "u = pow2 (- 1074)"
    have u: "0 < u" by (simp add: u_def pow2_pos)
    have flx: "fl x = u * of_int (rne (x / u))"
      using x0 m by (simp add: fl_def Let_def e0_def[symmetric] u_def)
    have "fl x - x = u * (of_int (rne (x / u)) - x / u)"
      using u by (simp add: flx algebra_simps)
    then have "\<bar>fl x - x\<bar> = u * \<bar>of_int (rne (x / u)) - x / u\<bar>"
      using u by (simp add: abs_mult)
    also have "\<dots> \<le> u * (1/2)"
      using rne_error[of "x / u"] u by (intro mult_left_mono) simp_all
    also have "\<dots> \<le> u" using u by simp
    also have "\<dots> \<le> pow2 (- 42)" unfolding u_def by (rule pow2_mono) simp
    also have "\<dots> \<le> 1 / 1000000000000" by (simp add: pow2_def)
    finally show ?thesis .
  qed
qed

lemma round_double_small:
  assumes "\<bar>x\<bar> \<le> 1024"
  shows "round_double x = Fin (fl x)"
proof -
  have "\<bar>fl x - x\<bar> \<le> 1 / 1000000000000" using fl_abs_error[OF assms] .
  then have "\<bar>fl x\<bar> \<le> 1025" using assms by linarith
  moreover have "(1025::real) \<le> 2 ^ 53" by simp
  ultimately have "fl x \<le> 2 ^ 53" "- fl x \<le> 2 ^ 53" by linarith+
  then have "fl x < pow2 1024" "- pow2 1024 < fl x"
    using pow2_1024_gt[of "fl x"] pow2_1024_gt[of "- fl x"] by simp_all
  then show ?thesis by (simp add: round_double_def Let_def)
qed

lemma weight_error:
  assumes "0 \<le> k" "k \<le> 1" "0 \<le> r" "r \<le> 255"
  shows "\<exists>p. js_mul (Fin r) (lit k) = Fin p \<and> \<bar>p - r * k\<bar> \<le> 1 / 1000000000"
proof -
  have ck: "\<bar>fl k - k\<bar> \<le> 1 / 1000000000000" using assms by (intro fl_abs_error) simp
  have "\<bar>r * fl k - r * k\<bar> = r * \<bar>fl k - k\<bar>"
    using assms(3) by (simp add: abs_mult flip: right_diff_distrib)
  also have "\<dots> \<le> 255 * (1 / 1000000000000)" using assms ck by (intro mult_mono) simp_all
  finally have e1: "\<bar>r * fl k - r * k\<bar> \<le> 255 / 1000000000000" by simp
  have "0 \<le> r * k" using assms by simp
  moreover have "r * k \<le> 255 * 1" using assms by (intro mult_mono) simp_all
  ultimately have small: "\<bar>r * fl k\<bar> \<le> 1024" using e1 by linarith
  have e2: "\<bar>fl (r * fl k) - r * fl k\<bar> \<le> 1 / 1000000000000"
    using small by (rule fl_abs_error)
  have "js_mul (Fin r) (lit k) = Fin (fl (r * fl k))"
    using round_double_small[OF small] by (simp add: lit_def)
  moreover have "\<bar>fl (r * fl k) - r * k\<bar> \<le> 1 / 1000000000" using e1 e2 by linarith
  ultimately show ?thesis by blast
qed

lemma sum_error:
  assumes "\<bar>p\<bar> \<le> 512" "\<bar>q\<bar> \<le> 512"
  shows "\<exists>s. js_add (Fin p) (Fin q) = Fin s \<and> \<bar>s - (p + q)\<bar> \<le> 1 / 1000000000000"
proof -
  have small: "\<bar>p + q\<bar> \<le> 1024" using assms by linarith
  show ?thesis using round_double_small[OF small] fl_abs_error[OF small] by simp
qed

lemma luminance_error:
  assumes "0 \<le> r" "r \<le> 255" "0 \<le> g" "g \<le> 255" "0 \<le> b" "b \<le> 255"
  shows "\<exists>s. luminance (Fin r) (Fin g) (Fin b) = Fin s
           \<and> \<bar>s - (0.299 * r + 0.587 * g + 0.114 * b)\<bar> \<le> 1 / 100000000"
proof -
  define L1 where "L1 = r * (299 / 1000)"
  define L2 where "L2 = g * (587 / 1000)"
  define L3 where "L3 = b * (114 / 1000)"
  obtain p1 where p1: "js_mul (Fin r) (lit (299 / 1000)) = Fin p1" "\<bar>p1 - L1\<bar> \<le> 1 / 1000000000"
    using weight_error[of "299 / 1000" r] assms unfolding L1_def by auto
  obtain p2 where p2: "js_mul (Fin g) (lit (587 / 1000)) = Fin p2" "\<bar>p2 - L2\<bar> \<le> 1 / 1000000000"
    using weight_error[of "587 / 1000" g] assms unfolding L2_def by auto
  obtain p3 where p3: "js_mul (Fin b) (lit (114 / 1000)) = Fin p3" "\<bar>p3 - L3\<bar> \<le> 1 / 1000000000"
    using weight_error[of "114 / 1000" b] assms unfolding L3_def by auto
  have q1: "0 \<le> L1" "L1 \<le> 255" using assms unfolding L1_def by simp_all
  have q2: "0 \<le> L2" "L2 \<le> 255" using assms unfolding L2_def by simp_all
  have q3: "0 \<le> L3" "L3 \<le> 255" using assms unfolding L3_def by simp_all
  have "\<bar>p1\<bar> \<le> 512" "\<bar>p2\<bar> \<le> 512" using p1(2) p2(2) q1 q2 by linarith+
  then obtain s1 where s1: "js_add (Fin p1) (Fin p2) = Fin s1"
      "\<bar>s1 - (p1 + p2)\<bar> \<le> 1 / 1000000000000"
    using sum_error[of p1 p2] by auto
  have L12: "L1 + L2 \<le> 255" using assms unfolding L1_def L2_def by simp
  have "\<bar>s1\<bar> \<le> 512" "\<bar>p3\<bar> \<le> 512" using s1(2) p1(2) p2(2) p3(2) q1 q2 q3 L12 by linarith+
  then obtain s2 where s2: "js_add (Fin s1) (Fin p3) = Fin s2"
      "\<bar>s2 - (s1 + p3)\<bar> \<le> 1 / 1000000000000"
    using sum_error[of s1 p3] by auto
  have "luminance (Fin r) (Fin g) (Fin b) = Fin s2"
    using p1(1) p2(1) p3(1) s1(1) s2(1) by (simp add: luminance_def)
  moreover have "\<bar>s2 - (L1 + L2 + L3)\<bar> \<le> 1 / 100000000"
    using s2(2) s1(2) p1(2) p2(2) p3(2) by linarith
  moreover have "L1 + L2 + L3 = 0.299 * r + 0.587 * g + 0.114 * b"
    unfolding L1_def L2_def L3_def by simp
  ultimately show ?thesis by auto
qed


lemma weights:
  "fl 0.299 = 5386305154335113 / 18014398509481984"
  "fl 0.587 = 2643612981266481 / 4503599627370496"
  "fl 0.114 = 8214565720323785 / 72057594037927936"
  by (subst fl_eval[where e = "- 2"], simp_all add: pow2_def rne_def Let_def,
      subst fl_eval[where e = "- 1"], simp_all add: pow2_def rne_def Let_def,
      subst fl_eval[where e = "- 4"], simp_all add: pow2_def rne_def Let_def)

lemma products:
  "round_double (170 * (5386305154335113 / 18014398509481984))
     = Fin (3576843266550661 / 70368744177664)"
  "round_double (226 * (2643612981266481 / 4503599627370496))
     = Fin (4667629170048631 / 35184372088832)"
  "round_double (22 * (8214565720323785 / 72057594037927936))
     = Fin (2823756966361301 / 1125899906842624)"
proof -
  have "fl (170 * (5386305154335113 / 18014398509481984)) = 3576843266550661 / 70368744177664"
    by (subst fl_eval[where e = "5"]) (simp_all add: pow2_def rne_def Let_def)
  then show "round_double (170 * (5386305154335113 / 18014398509481984))
     = Fin (3576843266550661 / 70368744177664)"
    by (subst round_double_small) simp_all
  have "fl (226 * (2643612981266481 / 4503599627370496)) = 4667629170048631 / 35184372088832"
    by (subst fl_eval[where e = "7"]) (simp_all add: pow2_def rne_def Let_def)
  then show "round_double (226 * (2643612981266481 / 4503599627370496))
     = Fin (4667629170048631 / 35184372088832)"
    by (subst round_double_small) simp_all
  have "fl (22 * (8214565720323785 / 72057594037927936)) = 2823756966361301 / 1125899906842624"
    by (subst fl_eval[where e = "1"]) (simp_all add: pow2_def rne_def Let_def)
  then show "round_double (22 * (8214565720323785 / 72057594037927936))
     = Fin (2823756966361301 / 1125899906842624)"
    by (subst round_double_small) simp_all
qed

lemma sums:
  "round_double (3576843266550661 / 70368744177664 + 4667629170048631 / 35184372088832)
     = Fin (3228025401661981 / 17592186044416)"
  "round_double (3228025401661981 / 17592186044416 + 2823756966361301 / 1125899906842624)
     = Fin (6544293208522753 / 35184372088832)"
proof -
  have "fl (3576843266550661 / 70368744177664 + 4667629170048631 / 35184372088832)
     = 3228025401661981 / 17592186044416"
    by (subst fl_eval[where e = "7"]) (simp_all add: pow2_def rne_def Let_def)
  then show "round_double (3576843266550661 / 70368744177664 + 4667629170048631 / 35184372088832)
     = Fin (3228025401661981 / 17592186044416)"
    by (subst round_double_small) simp_all
  have "fl (3228025401661981 / 17592186044416 + 2823756966361301 / 1125899906842624)
     = 6544293208522753 / 35184372088832"
    by (subst fl_eval[where e = "7"]) (simp_all add: pow2_def rne_def Let_def)
  then show "round_double (3228025401661981 / 17592186044416 + 2823756966361301 / 1125899906842624)
     = Fin (6544293208522753 / 35184372088832)"
    by (subst round_double_small) simp_all
qed

lemma radix16_char:
  assumes "is_radix_digit 16 c"
  shows "\<not> is_ws c" "c \<noteq> CHR ''+''" "c \<noteq> CHR ''-''" "c \<noteq> CHR ''x''" "c \<noteq> CHR ''X''"
    and "(case digit_val c of None \<Rightarrow> 0 | Some d \<Rightarrow> d) \<le> 15"
  using assms
  by (auto simp: is_radix_digit_def digit_val_def is_ws_def Let_def split: if_splits)

lemma parse_hex_pair:
  assumes "is_radix_digit 16 c1" "is_radix_digit 16 c2"
  shows "parseInt [c1, c2] 16 = Fin (of_int (int (digits_val 16 [c1, c2])))"
    and "int (digits_val 16 [c1, c2]) \<le> 255"
proof -
  have n: "digits_val 16 [c1, c2] \<le> 255"
    using radix16_char(6)[OF assms(1)] radix16_char(6)[OF assms(2)]
    by (simp add: digits_val_def)
  then show "int (digits_val 16 [c1, c2]) \<le> 255" by simp
  have "\<bar>int (digits_val 16 [c1, c2])\<bar> < 2 ^ 53" using n by simp
  then have "round_double (of_int (int (digits_val 16 [c1, c2])))
      = Fin (of_int (int (digits_val 16 [c1, c2])))"
    by (rule round_double_of_int)
  then show "parseInt [c1, c2] 16 = Fin (of_int (int (digits_val 16 [c1, c2])))"
    using assms radix16_char(1-5)[OF assms(1)] radix16_char(1-5)[OF assms(2)]
    by (simp add: parseInt_def Let_def)
qed

lemma bright_well_formed:
  assumes "well_formed_color s"
  shows "bright s = js_gt (luminance (Fin (of_int (channel s 1))) (Fin (of_int (channel s 3)))
                             (Fin (of_int (channel s 5)))) (lit 186)"
    and "0 \<le> channel s 1 \<and> channel s 1 \<le> 255"
    and "0 \<le> channel s 3 \<and> channel s 3 \<le> 255"
    and "0 \<le> channel s 5 \<and> channel s 5 \<le> 255"
proof -
  obtain h r1 r2 g1 g2 b1 b2 where s: "s = [h, r1, r2, g1, g2, b1, b2]"
    using assms by (auto simp: well_formed_color_def eval_nat_numeral length_Suc_conv)
  have d: "is_radix_digit 16 r1" "is_radix_digit 16 r2" "is_radix_digit 16 g1"
    "is_radix_digit 16 g2" "is_radix_digit 16 b1" "is_radix_digit 16 b2"
    using assms by (simp_all add: well_formed_color_def s)
  show "bright s = js_gt (luminance (Fin (of_int (channel s 1))) (Fin (of_int (channel s 3)))
                             (Fin (of_int (channel s 5)))) (lit 186)"
    using parse_hex_pair(1)[OF d(1,2)] parse_hex_pair(1)[OF d(3,4)] parse_hex_pair(1)[OF d(5,6)]
    by (simp add: bright_def channel_def substr_def s Let_def)
  show "0 \<le> channel s 1 \<and> channel s 1 \<le> 255"
    using parse_hex_pair(2)[OF d(1,2)] by (simp add: channel_def substr_def s)
  show "0 \<le> channel s 3 \<and> channel s 3 \<le> 255"
    using parse_hex_pair(2)[OF d(3,4)] by (simp add: channel_def substr_def s)
  show "0 \<le> channel s 5 \<and> channel s 5 \<le> 255"
    using parse_hex_pair(2)[OF d(5,6)] by (simp add: channel_def substr_def s)
qed

lemma exact_luminance_gap:
  "186 < exact_luminance r g b \<Longrightarrow> 186 + 1 / 1000 \<le> exact_luminance r g b"
  "exact_luminance r g b < 186 \<Longrightarrow> exact_luminance r g b \<le> 186 - 1 / 1000"
proof -
  define N where "N = 299 * r + 587 * g + 114 * b"
  have e: "exact_luminance r g b = of_int N / 1000"
    by (simp add: exact_luminance_def N_def)
  show "186 < exact_luminance r g b \<Longrightarrow> 186 + 1 / 1000 \<le> exact_luminance r g b"
  proof -
    assume "186 < exact_luminance r g b"
    then have "(of_int 186000 :: real) < of_int N" unfolding e by simp
    then have "186000 < N" by (simp only: of_int_less_iff)
    then have "186001 \<le> N" by simp
    then have "(of_int 186001 :: real) \<le> of_int N" by (simp only: of_int_le_iff)
    then show ?thesis unfolding e by simp
  qed
  show "exact_luminance r g b < 186 \<Longrightarrow> exact_luminance r g b \<le> 186 - 1 / 1000"
  proof -
    assume "exact_luminance r g b < 186"
    then have "(of_int N :: real) < of_int 186000" unfolding e by simp
    then have "N < 186000" by (simp only: of_int_less_iff)
    then have "N \<le> 185999" by simp
    then have "(of_int N :: real) \<le> of_int 185999" by (simp only: of_int_le_iff)
    then show ?thesis unfolding e by simp
  qed
qed

lemma luminance_decides:
  assumes "0 \<le> r \<and> r \<le> 255" "0 \<le> g \<and> g \<le> 255" "0 \<le> b \<and> b \<le> 255"
  shows "186 < exact_luminance r g b \<Longrightarrow>
           js_gt (luminance (Fin (of_int r)) (Fin (of_int g)) (Fin (of_int b))) (lit 186)"
    and "exact_luminance r g b < 186 \<Longrightarrow>
           \<not> js_gt (luminance (Fin (of_int r)) (Fin (of_int g)) (Fin (of_int b))) (lit 186)"
proof -
  obtain s where s: "luminance (Fin (of_int r)) (Fin (of_int g)) (Fin (of_int b)) = Fin s"
      "\<bar>s - exact_luminance r g b\<bar> \<le> 1 / 100000000"
    using luminance_error[of "of_int r" "of_int g" "of_int b"] assms
    unfolding exact_luminance_def by auto
  show "186 < exact_luminance r g b \<Longrightarrow>
           js_gt (luminance (Fin (of_int r)) (Fin (of_int g)) (Fin (of_int b))) (lit 186)"
  proof -
    assume "186 < exact_luminance r g b"
    then have "186 + 1 / 1000 \<le> exact_luminance r g b" by (rule exact_luminance_gap(1))
    then have "186 < s" using s(2) by linarith
    then show ?thesis by (simp add: s(1) js_gt_def lit_nums)
  qed
  show "exact_luminance r g b < 186 \<Longrightarrow>
           \<not> js_gt (luminance (Fin (of_int r)) (Fin (of_int g)) (Fin (of_int b))) (lit 186)"
  proof -
    assume "exact_luminance r g b < 186"
    then have "exact_luminance r g b \<le> 186 - 1 / 1000" by (rule exact_luminance_gap(2))
    then have "\<not> 186 < s" using s(2) by linarith
    then show ?thesis by (simp add: s(1) js_gt_def lit_nums)
  qed
qed

lemma luminance_boundary:
  "luminance (Fin 170) (Fin 226) (Fin 22) = Fin (6544293208522753 / 35184372088832)"
  unfolding luminance_def lit_def weights
  by (simp only: js_mul.simps js_add.simps products sums)


lemma channels_eval:
  "well_formed_color ''#ffffff''" "well_formed_color ''#000000''" "well_formed_color ''#ff0000''"
  "well_formed_color ''#aae216''"
  "channel ''#ffffff'' 1 = 255" "channel ''#ffffff'' 3 = 255" "channel ''#ffffff'' 5 = 255"
  "channel ''#000000'' 1 = 0" "channel ''#000000'' 3 = 0" "channel ''#000000'' 5 = 0"
  "channel ''#ff0000'' 1 = 255" "channel ''#ff0000'' 3 = 0" "channel ''#ff0000'' 5 = 0"
  "channel ''#aae216'' 1 = 170" "channel ''#aae216'' 3 = 226" "channel ''#aae216'' 5 = 22"
  "channel ''#ffffff'' (Suc 0) = 255" "channel ''#000000'' (Suc 0) = 0"
  "channel ''#ff0000'' (Suc 0) = 255" "channel ''#aae216'' (Suc 0) = 170"
  by (simp_all add: well_formed_color_def channel_def substr_def char_eval)


section \<open>The claims of the specification\<close>

subsection \<open>The display colour\<close>

text \<open>
  Claim C1, as amended.  \<open>getIconColor\<close> decides on the cache alone and never looks at the
  registered capabilities: with no \<open>color\<close> key cached it converts the cached
  \<open>colorTemperature\<close>; a \<open>color\<close> key that is cached is returned when the cached
  \<open>colorTemperature\<close> is absent or the invalid value 0.
\<close>

theorem getIconColor_reads_cache_only:
  "(properties w ''color'' = None \<and> properties w ''colorTemperature'' = Some t
      \<longrightarrow> getIconColor w = Str (colorTemperatureToRGB t))
   \<and> (properties w ''color'' = Some c
        \<and> (properties w ''colorTemperature'' = None
             \<or> properties w ''colorTemperature'' = Some (Num (Fin 0)))
      \<longrightarrow> getIconColor w = c)
   \<and> getIconColor (w\<lparr>displayedProperties := capabilities\<rparr>) = getIconColor w"
  by (auto simp: getIconColor_def split: option.splits)

theorem getIconColor_reads_cache_only_witness:
  "properties ((html_widget white_lamp_capabilities)
       \<lparr>properties := [''colorTemperature'' \<mapsto> Num (Fin 0)]\<rparr>) ''color'' = None
   \<and> getIconColor ((html_widget white_lamp_capabilities)
       \<lparr>properties := [''colorTemperature'' \<mapsto> Num (Fin 0)]\<rparr>) = Str ''#ff00''
   \<and> properties spurious_lamp ''color'' = Some (Str ''#112233'')
   \<and> properties spurious_lamp ''colorTemperature'' = Some (Num (Fin 0))
   \<and> getIconColor spurious_lamp = Str ''#112233''"
  using
    getIconColor_reads_cache_only
      [of "(html_widget white_lamp_capabilities)
             \<lparr>properties := [''colorTemperature'' \<mapsto> Num (Fin 0)]\<rparr>"
          "Num (Fin 0)" Undefined white_lamp_capabilities]
    getIconColor_reads_cache_only
      [of spurious_lamp Undefined "Str ''#112233''" white_lamp_capabilities]
  by (simp add: spurious_lamp_def html_widget_def colorTemperatureToRGB_0)

text \<open>
  The lamp registered with \<open>on\<close> and \<open>colorTemperature\<close> only has no colour capability, a
  colour temperature of 0 and a colour cached; the display colour is the cached colour, not
  the conversion of the temperature.
\<close>

theorem getIconColor_spurious_color_counterexample:
  "register_capabilities (Some white_lamp_capabilities) = Inr white_lamp_capabilities
   \<and> displayedProperties spurious_lamp = white_lamp_capabilities
   \<and> white_lamp_capabilities ''color'' = None
   \<and> properties spurious_lamp ''colorTemperature'' = Some (Num (Fin 0))
   \<and> getIconColor spurious_lamp = Str ''#112233''
   \<and> colorTemperatureToRGB (Num (Fin 0)) = ''#ff00''
   \<and> getIconColor spurious_lamp \<noteq> Str (colorTemperatureToRGB (Num (Fin 0)))"
  by (simp add: spurious_lamp_def html_widget_def white_lamp_capabilities_def getIconColor_def
        colorTemperatureToRGB_0 register_capabilities_def fun_upd_twist)

subsection \<open>The unpadded digits\<close>

text \<open>
  Claim C2.  The channels are printed without padding.  For every temperature from 0 to 1900
  Kelvin the red channel is 255, the blue channel is 0 and prints as the single digit
  \<open>0\<close>, and the result is shorter than the seven characters of \<open>#rrggbb\<close>; so such an
  input exists.
\<close>

theorem colorTemperatureToRGB_unpadded:
  "0 \<le> K \<and> K \<le> 1900 \<longrightarrow>
     length (colorTemperatureToRGB (Num (Fin K))) < 7
     \<and> toString_radix (IntVal 0) 16 = ''0''
     \<and> (\<exists>g. rounded_channels (Num (Fin K)) = (IntVal 255, IntVal g, IntVal 0)
           \<and> colorTemperatureToRGB (Num (Fin K)) = ''#ff'' @ to_radix 16 (nat g) @ ''0'')"
proof
  assume K: "0 \<le> K \<and> K \<le> 1900"
  obtain y where y: "js_div_lit (ToNumber (Num (Fin K))) 100 = Fin y" "0 \<le> y" "y \<le> 19"
    using scaled_temperature[of 0 K 19] K by (auto simp: fl_small_ints)
  have r: "red_channel (Fin y) = Fin 255" using y by (simp add: red_channel_def lit_nums)
  have b: "blue_channel (Fin y) = Fin 0" using y by (simp add: blue_channel_def lit_nums js_ge_def)
  obtain cg where cg: "green_channel (Fin y) = Fin cg" "0 \<le> cg" "cg \<le> 255"
    using green_channel_range[OF y(2)] by blast
  obtain g where g: "Math_round (Fin cg) = IntVal g" "0 \<le> g" "g \<le> 255"
    using round_byte[OF cg(2,3)] by blast
  have z: "to_radix 16 0 = ''0''" "to_radix 16 255 = ''ff''"
    by (simp_all add: to_radix.simps digit_char_def)
  have ch: "rounded_channels (Num (Fin K)) = (IntVal 255, IntVal g, IntVal 0)"
    unfolding rounded_channels_def y(1) Let_def r b cg(1) g(1) by simp
  have s: "colorTemperatureToRGB (Num (Fin K)) = ''#ff'' @ to_radix 16 (nat g) @ ''0''"
    unfolding colorTemperatureToRGB_def y(1) Let_def r b cg(1) g(1)
    using g(2) by (simp add: z)
  have "length (colorTemperatureToRGB (Num (Fin K))) < 7"
    unfolding s using toString_byte(4)[OF g(2,3)] by simp
  then show "length (colorTemperatureToRGB (Num (Fin K))) < 7
     \<and> toString_radix (IntVal 0) 16 = ''0''
     \<and> (\<exists>g. rounded_channels (Num (Fin K)) = (IntVal 255, IntVal g, IntVal 0)
           \<and> colorTemperatureToRGB (Num (Fin K)) = ''#ff'' @ to_radix 16 (nat g) @ ''0'')"
    using ch s by (auto simp: z)
qed

theorem colorTemperatureToRGB_unpadded_witness:
  "(0::real) \<le> 1900 \<and> (1900::real) \<le> 1900
   \<and> length (colorTemperatureToRGB (Num (Fin 1900))) < 7
   \<and> (\<exists>g. rounded_channels (Num (Fin 1900)) = (IntVal 255, IntVal g, IntVal 0)
           \<and> colorTemperatureToRGB (Num (Fin 1900)) = ''#ff'' @ to_radix 16 (nat g) @ ''0'')
   \<and> (\<exists>K. length (colorTemperatureToRGB (Num (Fin K))) < 7)"
  using colorTemperatureToRGB_unpadded[of 1900] by auto

subsection \<open>The update of \<open>on\<close>\<close>

text \<open>
  Claim C3, as amended.  A null value is cached and nothing else happens.  For any other
  value, on a widget that has its label and its \<open>color-light\<close> element and, in the
  \<open>htmlDetail\<close> format, the \<open>on\<close> capability registered, the update completes: the value
  is cached, the label becomes \<open>on\<close> or \<open>off\<close>, in the \<open>htmlDetail\<close> format the detail of
  \<open>on\<close> is updated, the background becomes the constant \<open>white\<close> for a truthy value and
  is cleared for a falsy one, and the on visual state follows the value; the display
  colour is not computed.
\<close>

theorem updateOn_effect:
  "updateOn w Null = Done (w\<lparr>properties := (properties w)(''on'' \<mapsto> Null)\<rparr>)
   \<and> (v \<noteq> Null \<and> colorLightLabel w = Some label \<and> colorLight w = Some el
        \<and> (format w = ''htmlDetail'' \<longrightarrow> displayedProperties w ''on'' \<noteq> None)
      \<longrightarrow> updateOn w v =
            Done (w\<lparr>properties := (properties w)(''on'' \<mapsto> v),
                    colorLightLabel := Some (if truthy v then ''on'' else ''off''),
                    detailUpdates := (if format w = ''htmlDetail''
                                      then detailUpdates w @ [''on''] else detailUpdates w),
                    colorLight := Some (el\<lparr>background := (if truthy v then ''white'' else [])\<rparr>),
                    shownOn := truthy v\<rparr>))"
  by (auto simp: updateOn_def dom_steps Let_def)

theorem updateOn_effect_witness:
  "Bool True \<noteq> Null
   \<and> colorLightLabel cached_color_lamp = Some ''ON''
   \<and> colorLight cached_color_lamp = Some \<lparr>background = [], classList = {''color-light''}\<rparr>
   \<and> format cached_color_lamp \<noteq> ''htmlDetail''
   \<and> updateOn cached_color_lamp (Bool True) =
        Done (cached_color_lamp
               \<lparr>properties := [''color'' \<mapsto> Str ''#112233'', ''on'' \<mapsto> Bool True],
                colorLightLabel := Some ''on'',
                colorLight := Some \<lparr>background = ''white'', classList = {''color-light''}\<rparr>,
                shownOn := True\<rparr>)
   \<and> updateOn cached_color_lamp (Bool False) =
        Done (cached_color_lamp
               \<lparr>properties := [''color'' \<mapsto> Str ''#112233'', ''on'' \<mapsto> Bool False],
                colorLightLabel := Some ''off'',
                colorLight := Some \<lparr>background = [], classList = {''color-light''}\<rparr>,
                shownOn := False\<rparr>)"
  using
    updateOn_effect [of cached_color_lamp "Bool True" "''ON''"
                        "\<lparr>background = [], classList = {''color-light''}\<rparr>"]
    updateOn_effect [of cached_color_lamp "Bool False" "''ON''"
                        "\<lparr>background = [], classList = {''color-light''}\<rparr>"]
  by (simp add: cached_color_lamp_def html_widget_def)

text \<open>
  The lamp has \<open>#112233\<close> cached, so that is its display colour; switched on, its
  background is \<open>white\<close>.
\<close>

theorem updateOn_background_counterexample:
  "truthy (Bool True)
   \<and> getIconColor (state_of (updateOn cached_color_lamp (Bool True))) = Str ''#112233''
   \<and> map_option background (colorLight (state_of (updateOn cached_color_lamp (Bool True))))
       = Some ''white''
   \<and> map_option (\<lambda>el. Str (background el))
         (colorLight (state_of (updateOn cached_color_lamp (Bool True))))
       \<noteq> Some (getIconColor (state_of (updateOn cached_color_lamp (Bool True))))"
  by (simp add: cached_color_lamp_def html_widget_def getIconColor_def updateOn_def
        dom_steps Let_def)

subsection \<open>The range of the conversion\<close>

text \<open>
  Claim C4.  For every temperature from 1000 to 40000 Kelvin the three rounded channels are
  integers from 0 to 255, the result is \<open>#\<close> followed by their digits in base 16, and it
  has the shape \<open>#\<close> with one to six lower-case hexadecimal digits.
\<close>

theorem colorTemperatureToRGB_range:
  "1000 \<le> K \<and> K \<le> 40000 \<longrightarrow>
     short_hex_color (colorTemperatureToRGB (Num (Fin K)))
     \<and> (\<exists>r g b. rounded_channels (Num (Fin K)) = (IntVal r, IntVal g, IntVal b)
           \<and> 0 \<le> r \<and> r \<le> 255 \<and> 0 \<le> g \<and> g \<le> 255 \<and> 0 \<le> b \<and> b \<le> 255
           \<and> colorTemperatureToRGB (Num (Fin K)) =
               CHR ''#'' # to_radix 16 (nat r) @ to_radix 16 (nat g) @ to_radix 16 (nat b))"
proof
  assume K: "1000 \<le> K \<and> K \<le> 40000"
  obtain y where y: "js_div_lit (ToNumber (Num (Fin K))) 100 = Fin y" "10 \<le> y"
    using scaled_temperature[of 10 K 400] K by (auto simp: fl_small_ints)
  then have y0: "0 \<le> y" by simp
  obtain r g b where ch: "rounded_channels (Num (Fin K)) = (IntVal r, IntVal g, IntVal b)"
      "0 \<le> r" "r \<le> 255" "0 \<le> g" "g \<le> 255" "0 \<le> b" "b \<le> 255"
      "colorTemperatureToRGB (Num (Fin K)) =
         CHR ''#'' # to_radix 16 (nat r) @ to_radix 16 (nat g) @ to_radix 16 (nat b)"
    using colorTemperatureToRGB_shape[OF y0 y(1)] by blast
  have "short_hex_color (colorTemperatureToRGB (Num (Fin K)))"
    unfolding ch(8) short_hex_color_def
    using toString_byte(2-4)[OF ch(2,3)] toString_byte(2-4)[OF ch(4,5)]
      toString_byte(2-4)[OF ch(6,7)]
    by (simp add: hex_digits_def)
  then show "short_hex_color (colorTemperatureToRGB (Num (Fin K)))
     \<and> (\<exists>r g b. rounded_channels (Num (Fin K)) = (IntVal r, IntVal g, IntVal b)
           \<and> 0 \<le> r \<and> r \<le> 255 \<and> 0 \<le> g \<and> g \<le> 255 \<and> 0 \<le> b \<and> b \<le> 255
           \<and> colorTemperatureToRGB (Num (Fin K)) =
               CHR ''#'' # to_radix 16 (nat r) @ to_radix 16 (nat g) @ to_radix 16 (nat b))"
    using ch by blast
qed

theorem colorTemperatureToRGB_range_witness:
  "(1000::real) \<le> 2700 \<and> (2700::real) \<le> 40000
   \<and> short_hex_color (colorTemperatureToRGB (Num (Fin 2700)))
   \<and> (\<exists>r g b. rounded_channels (Num (Fin 2700)) = (IntVal r, IntVal g, IntVal b)
           \<and> 0 \<le> r \<and> r \<le> 255 \<and> 0 \<le> g \<and> g \<le> 255 \<and> 0 \<le> b \<and> b \<le> 255
           \<and> colorTemperatureToRGB (Num (Fin 2700)) =
               CHR ''#'' # to_radix 16 (nat r) @ to_radix 16 (nat g) @ to_radix 16 (nat b))"
  using colorTemperatureToRGB_range[of 2700] by simp

subsection \<open>The brightness class\<close>

text \<open>
  Claim C5, as amended.  When \<open>updateIcon\<close> completes, the icon colour is a string and the
  class \<open>bright-color\<close> is present exactly if the luminance of its three parsed channels,
  computed in binary64, exceeds 186.  For a colour of the form \<open>#rrggbb\<close> this agrees with
  the exact luminance \<open>L\<close> unless \<open>L\<close> is exactly 186: \<open>L > 186\<close> gives the class and \<open>L < 186\<close>
  removes it.  \<open>#ffffff\<close> is bright; \<open>#000000\<close> and \<open>#ff0000\<close>, of luminance 76.245, are not.
\<close>

theorem updateIcon_brightness:
  "(updateIcon w = Done w' \<longrightarrow>
      (\<exists>s el. getIconColor w = Str s \<and> colorLight w' = Some el
          \<and> (''bright-color'' \<in> classList el) = bright s))
   \<and> (well_formed_color c \<longrightarrow>
        (186 < exact_luminance (channel c 1) (channel c 3) (channel c 5) \<longrightarrow> bright c)
        \<and> (exact_luminance (channel c 1) (channel c 3) (channel c 5) < 186 \<longrightarrow> \<not> bright c))
   \<and> bright ''#ffffff'' \<and> \<not> bright ''#000000'' \<and> \<not> bright ''#ff0000''
   \<and> exact_luminance 255 0 0 = 76.245"
proof -
  have decide: "(186 < exact_luminance (channel c 1) (channel c 3) (channel c 5) \<longrightarrow> bright c)
        \<and> (exact_luminance (channel c 1) (channel c 3) (channel c 5) < 186 \<longrightarrow> \<not> bright c)"
    if "well_formed_color c" for c
    using bright_well_formed[OF that]
      luminance_decides[of "channel c 1" "channel c 3" "channel c 5"]
    by simp
  have run: "\<exists>s el. getIconColor w = Str s \<and> colorLight w' = Some el
          \<and> (''bright-color'' \<in> classList el) = bright s"
    if "updateIcon w = Done w'"
    using that
    by (auto simp: updateIcon_def dom_steps Let_def split: option.splits jsval.splits if_splits)
  have white: "bright ''#ffffff''"
    using decide[of "''#ffffff''"] by (simp add: channels_eval exact_luminance_def)
  have black: "\<not> bright ''#000000''"
    using decide[of "''#000000''"] by (simp add: channels_eval exact_luminance_def)
  have red: "\<not> bright ''#ff0000''"
    using decide[of "''#ff0000''"] by (simp add: channels_eval exact_luminance_def)
  have "exact_luminance 255 0 0 = 76.245" by (simp add: exact_luminance_def)
  then show ?thesis using decide run white black red by blast
qed

theorem updateIcon_brightness_witness:
  "updateIcon white_lit_lamp =
     Done (white_lit_lamp\<lparr>colorLightIconPath := Some (Str ''#ffffff''),
             colorLight := Some \<lparr>background = [], classList = {''bright-color'', ''color-light''}\<rparr>\<rparr>)
   \<and> getIconColor white_lit_lamp = Str ''#ffffff''
   \<and> well_formed_color ''#ffffff''
   \<and> 186 < exact_luminance (channel ''#ffffff'' 1) (channel ''#ffffff'' 3) (channel ''#ffffff'' 5)
   \<and> bright ''#ffffff''
   \<and> well_formed_color ''#ff0000''
   \<and> exact_luminance (channel ''#ff0000'' 1) (channel ''#ff0000'' 3) (channel ''#ff0000'' 5) < 186
   \<and> \<not> bright ''#ff0000''"
  using
    updateIcon_brightness
      [of white_lit_lamp
          "white_lit_lamp\<lparr>colorLightIconPath := Some (Str ''#ffffff''),
             colorLight := Some \<lparr>background = [], classList = {''bright-color'', ''color-light''}\<rparr>\<rparr>"
          "''#ffffff''"]
    updateIcon_brightness [of white_lit_lamp white_lit_lamp "''#ff0000''"]
  by (simp add: channels_eval exact_luminance_def white_lit_lamp_def html_widget_def
        updateIcon_def getIconColor_def dom_steps Let_def)

text \<open>
  The colour \<open>#aae216\<close> has the exact luminance 186, which does not exceed 186; in binary64
  the sum is \<open>186 + 2^-45\<close>, and \<open>updateIcon\<close> adds the class.
\<close>

theorem updateIcon_boundary_counterexample:
  "well_formed_color ''#aae216''
   \<and> channel ''#aae216'' 1 = 170 \<and> channel ''#aae216'' 3 = 226 \<and> channel ''#aae216'' 5 = 22
   \<and> exact_luminance 170 226 22 = 186
   \<and> \<not> 186 < exact_luminance 170 226 22
   \<and> luminance (Fin 170) (Fin 226) (Fin 22) = Fin (6544293208522753 / 35184372088832)
   \<and> (186::real) < 6544293208522753 / 35184372088832
   \<and> bright ''#aae216''
   \<and> updateIcon boundary_lamp =
       Done (boundary_lamp\<lparr>colorLightIconPath := Some (Str ''#aae216''),
               colorLight := Some \<lparr>background = [], classList = {''bright-color'', ''color-light''}\<rparr>\<rparr>)"
proof -
  have b: "bright ''#aae216''"
    using bright_well_formed(1)[of "''#aae216''"] luminance_boundary
    by (simp add: channels_eval js_gt_def lit_nums)
  have "updateIcon boundary_lamp =
       Done (boundary_lamp\<lparr>colorLightIconPath := Some (Str ''#aae216''),
               colorLight := Some \<lparr>background = [], classList = {''bright-color'', ''color-light''}\<rparr>\<rparr>)"
    using b by (simp add: boundary_lamp_def html_widget_def updateIcon_def getIconColor_def
                  dom_steps Let_def)
  then show ?thesis
    using b luminance_boundary by (simp add: channels_eval exact_luminance_def)
qed

subsection \<open>Setting the colour\<close>

text \<open>
  Claim C6.  A response whose status is not 200, and a transport failure, leave the whole
  widget as it was and add one line to the console; the handlers end in a state, so
  nothing is thrown, and \<open>setColor\<close> itself returns the request when the colour capability
  is registered.  Whatever the request settles as, the cached colour afterwards is the one
  cached before or the colour the response echoed with status 200; the requested colour
  is only in the payload.
\<close>

theorem setColor_failure_leaves_state:
  "(status \<noteq> 200 \<longrightarrow>
      setColor_settled w (Response status body) =
        w\<lparr>console := console w @
             [''Error trying to set color: Error: Status '' @ to_radix 10 status
                @ '' trying to set color'']\<rparr>)
   \<and> setColor_settled w (Failed reason) =
        w\<lparr>console := console w @ [''Error trying to set color: '' @ error_text reason]\<rparr>
   \<and> (displayedProperties w ''color'' = Some href \<longrightarrow>
        setColor w color =
          Inr \<lparr>url = href, http_method = ''PUT'', payload = [(''color'', color)]\<rparr>)
   \<and> (properties (setColor_settled w s) ''color'' = properties w ''color''
        \<or> (\<exists>json echoed. s = Response 200 (Some json) \<and> member json ''color'' = Inr echoed
              \<and> properties (setColor_settled w s) ''color'' = Some echoed))"
proof (intro conjI impI)
  assume "status \<noteq> 200"
  then show "setColor_settled w (Response status body) =
        w\<lparr>console := console w @
             [''Error trying to set color: Error: Status '' @ to_radix 10 status
                @ '' trying to set color'']\<rparr>"
    by (simp add: setColor_settled_def console_error_def)
next
  show "setColor_settled w (Failed reason) =
        w\<lparr>console := console w @ [''Error trying to set color: '' @ error_text reason]\<rparr>"
    by (simp add: setColor_settled_def console_error_def)
next
  assume "displayedProperties w ''color'' = Some href"
  then show "setColor w color =
      Inr \<lparr>url = href, http_method = ''PUT'', payload = [(''color'', color)]\<rparr>"
    by (simp add: setColor_def)
next
  have upd: "properties (case updateColor w c of Done w' \<Rightarrow> w'
                  | Threw e w' \<Rightarrow> console_error (f e) w') ''color''
             = (if truthy c then Some c else properties w ''color'')" for c f
    using properties_updateColor[of w c]
    by (cases "updateColor w c") (auto simp: console_error_def)
  show "properties (setColor_settled w s) ''color'' = properties w ''color''
        \<or> (\<exists>json echoed. s = Response 200 (Some json) \<and> member json ''color'' = Inr echoed
              \<and> properties (setColor_settled w s) ''color'' = Some echoed)"
  proof (cases s)
    case (Failed e)
    then show ?thesis by (simp add: setColor_settled_def console_error_def)
  next
    case (Response status body)
    show ?thesis
    proof (cases "status = 200")
      case False
      then show ?thesis using Response by (simp add: setColor_settled_def console_error_def)
    next
      case True
      show ?thesis
      proof (cases body)
        case None
        then show ?thesis using Response True
          by (simp add: setColor_settled_def console_error_def)
      next
        case (Some json)
        show ?thesis
        proof (cases "member json ''color''")
          case (Inl e)
          then show ?thesis using Response True Some
            by (simp add: setColor_settled_def console_error_def)
        next
          case (Inr c)
          then show ?thesis using Response True Some upd[where c=c]
            by (simp add: setColor_settled_def)
        qed
      qed
    qed
  qed
qed

theorem setColor_failure_leaves_state_witness:
  "(500::nat) \<noteq> 200
   \<and> setColor_settled cached_color_lamp (Response 500 None) =
       cached_color_lamp
         \<lparr>console := [''Error trying to set color: Error: Status 500 trying to set color'']\<rparr>
   \<and> setColor_settled cached_color_lamp (Failed TypeError) =
       cached_color_lamp\<lparr>console := [''Error trying to set color: TypeError'']\<rparr>
   \<and> displayedProperties cached_color_lamp ''color'' = Some ''/things/lamp/properties/color''
   \<and> setColor cached_color_lamp (Str ''#ff0000'') =
       Inr \<lparr>url = ''/things/lamp/properties/color'', http_method = ''PUT'',
            payload = [(''color'', Str ''#ff0000'')]\<rparr>
   \<and> properties (setColor_settled cached_color_lamp (Response 500 None)) ''color''
       = Some (Str ''#112233'')"
  using
    setColor_failure_leaves_state
      [of 500 cached_color_lamp None TypeError "''/things/lamp/properties/color''"
          "Str ''#ff0000''" "Response 500 None"]
  by (simp add: cached_color_lamp_def html_widget_def color_lamp_capabilities_def
        to_radix.simps digit_char_def)

subsection \<open>The seam at 6600 Kelvin\<close>

text \<open>
  Claim C7.  At 6600 Kelvin the scaled temperature is exactly 66, where the red and the blue
  channel are the constant 255.  The green channel before the clamp lies strictly between
  255 and 256, in the rounded arithmetic of the program and as a real number; the clamp
  makes it 255, and the result is \<open>#ffffff\<close>.
\<close>

theorem colorTemperatureToRGB_6600:
  "colorTemperatureToRGB (Num (Fin 6600)) = ''#ffffff''
   \<and> rounded_channels (Num (Fin 6600)) = (IntVal 255, IntVal 255, IntVal 255)
   \<and> js_div_lit (ToNumber (Num (Fin 6600))) 100 = Fin 66
   \<and> red_channel (Fin 66) = Fin 255
   \<and> blue_channel (Fin 66) = Fin 255
   \<and> js_lt (lit 255) (green_unclamped (Fin 66))
   \<and> js_lt (green_unclamped (Fin 66)) (lit 256)
   \<and> green_channel (Fin 66) = Fin 255
   \<and> (255::real) < 99.4708025861 * ln 66 - 161.1195681661
   \<and> 99.4708025861 * ln 66 - 161.1195681661 < (256::real)"
proof -
  have t: "js_div_lit (ToNumber (Num (Fin 6600))) 100 = Fin 66"
    using round_double_of_int[of 66] by simp
  have r: "red_channel (Fin 66) = Fin 255" by (simp add: red_channel_def lit_nums)
  have b: "blue_channel (Fin 66) = Fin 255" by (simp add: blue_channel_def lit_nums js_ge_def)
  obtain G where G: "green_unclamped (Fin 66) = Fin G" "130765/512 \<le> G" "G \<le> 4192175/16384"
    using green_unclamped_66 by blast
  have l256: "lit 256 = Fin 256" using lit_of_int[of 256] by simp
  have g: "green_channel (Fin 66) = Fin 255"
    using G by (simp add: green_channel_def Let_def Math_max_def Math_min_def lit_nums)
  have z: "to_radix 16 255 = ''ff''" by (simp add: to_radix.simps digit_char_def)
  have s: "colorTemperatureToRGB (Num (Fin 6600)) = ''#ffffff''"
    unfolding colorTemperatureToRGB_def t Let_def r g b by (simp add: z)
  have ch: "rounded_channels (Num (Fin 6600)) = (IntVal 255, IntVal 255, IntVal 255)"
    unfolding rounded_channels_def t Let_def r g b by simp
  have lt: "js_lt (lit 255) (green_unclamped (Fin 66))" "js_lt (green_unclamped (Fin 66)) (lit 256)"
    using G by (simp_all add: lit_nums l256)
  have id1: "(255::real) < 99.4708025861 * ln 66 - 161.1195681661"
    using ln_66_lower by simp
  have id2: "99.4708025861 * ln 66 - 161.1195681661 < (256::real)"
    using ln_66_upper by simp
  show ?thesis using s ch t r b lt g id1 id2 by blast
qed

subsection \<open>The update of \<open>color\<close>\<close>

text \<open>
  Claim C8, as amended.  A falsy value changes nothing at all.  A truthy value is cached.
  When the value is a non-empty string and the widget has its \<open>color-light\<close> element
  and its icon path and, in the \<open>htmlDetail\<close> format, the \<open>color\<close> capability
  registered, the update completes: in the \<open>htmlDetail\<close> format the detail of \<open>color\<close> is
  updated, the display colour is then the value, the fill of the icon is set to it, and
  the class \<open>bright-color\<close> is set from it.
\<close>

theorem updateColor_effect:
  "(\<not> truthy v \<longrightarrow> updateColor w v = Done w)
   \<and> (truthy v \<longrightarrow> properties (state_of (updateColor w v)) = (properties w)(''color'' \<mapsto> v))
   \<and> (s \<noteq> [] \<and> colorLight w = Some el \<and> colorLightIconPath w = Some old
        \<and> (format w = ''htmlDetail'' \<longrightarrow> displayedProperties w ''color'' \<noteq> None)
      \<longrightarrow> getIconColor (state_of (updateColor w (Str s))) = Str s
          \<and> updateColor w (Str s) =
            Done (w\<lparr>properties := (properties w)(''color'' \<mapsto> Str s),
                    detailUpdates := (if format w = ''htmlDetail''
                                      then detailUpdates w @ [''color''] else detailUpdates w),
                    colorLightIconPath := Some (Str s),
                    colorLight := Some (el\<lparr>classList :=
                       (if bright s then insert ''bright-color'' (classList el)
                        else classList el - {''bright-color''})\<rparr>)\<rparr>))"
proof (intro conjI impI)
  assume "\<not> truthy v"
  then show "updateColor w v = Done w" by (simp add: updateColor_def)
next
  assume "truthy v"
  then show "properties (state_of (updateColor w v)) = (properties w)(''color'' \<mapsto> v)"
    by (simp add: properties_updateColor)
next
  assume a: "s \<noteq> [] \<and> colorLight w = Some el \<and> colorLightIconPath w = Some old
        \<and> (format w = ''htmlDetail'' \<longrightarrow> displayedProperties w ''color'' \<noteq> None)"
  then show "getIconColor (state_of (updateColor w (Str s))) = Str s"
    by (simp add: getIconColor_def properties_updateColor)
  from a show "updateColor w (Str s) =
            Done (w\<lparr>properties := (properties w)(''color'' \<mapsto> Str s),
                    detailUpdates := (if format w = ''htmlDetail''
                                      then detailUpdates w @ [''color''] else detailUpdates w),
                    colorLightIconPath := Some (Str s),
                    colorLight := Some (el\<lparr>classList :=
                       (if bright s then insert ''bright-color'' (classList el)
                        else classList el - {''bright-color''})\<rparr>)\<rparr>)"
    by (auto simp: updateColor_def updateIcon_def getIconColor_def dom_steps Let_def)
qed

theorem updateColor_effect_witness:
  "\<not> truthy (Str [])
   \<and> updateColor cached_color_lamp (Str []) = Done cached_color_lamp
   \<and> truthy (Str ''#445566'')
   \<and> colorLight cached_color_lamp = Some \<lparr>background = [], classList = {''color-light''}\<rparr>
   \<and> colorLightIconPath cached_color_lamp = Some Undefined
   \<and> format cached_color_lamp \<noteq> ''htmlDetail''
   \<and> properties (state_of (updateColor cached_color_lamp (Str ''#445566'')))
        = [''color'' \<mapsto> Str ''#445566'']
   \<and> updateColor cached_color_lamp (Str ''#445566'') =
        Done (cached_color_lamp
               \<lparr>properties := [''color'' \<mapsto> Str ''#445566''],
                colorLightIconPath := Some (Str ''#445566''),
                colorLight := Some \<lparr>background = [], classList = {''color-light''}\<rparr>\<rparr>)"
proof -
  have w: "well_formed_color ''#445566''"
    and c: "channel ''#445566'' 1 = 68" "channel ''#445566'' 3 = 85" "channel ''#445566'' 5 = 102"
    by (simp_all add: well_formed_color_def channel_def substr_def char_eval)
  have l: "\<not> js_gt (luminance (Fin (of_int 68)) (Fin (of_int 85)) (Fin (of_int 102))) (lit 186)"
    by (rule luminance_decides(2)) (simp_all add: exact_luminance_def)
  have "bright ''#445566'' =
      js_gt (luminance (Fin (of_int 68)) (Fin (of_int 85)) (Fin (of_int 102))) (lit 186)"
    using bright_well_formed(1)[OF w] unfolding c .
  then have dark: "\<not> bright ''#445566''"
    using l by blast
  show ?thesis
    using
      updateColor_effect [of "Str []" cached_color_lamp "''#445566''"
                             "\<lparr>background = [], classList = {''color-light''}\<rparr>" Undefined]
      updateColor_effect [of "Str ''#445566''" cached_color_lamp "''#445566''"
                             "\<lparr>background = [], classList = {''color-light''}\<rparr>" Undefined]
      dark
    by (simp add: cached_color_lamp_def html_widget_def)
qed

text \<open>
  In the \<open>svg\<close> format the widget has no element: the colour is cached and nothing is
  recomputed.  A truthy value that is not a string is cached and assigned to the fill, and
  then the update throws before it reaches the class.
\<close>

theorem updateColor_not_recomputed_counterexample:
  "truthy (Str ''#112233'')
   \<and> updateColor (svg_widget color_lamp_capabilities) (Str ''#112233'') =
       Done ((svg_widget color_lamp_capabilities)
               \<lparr>properties := [''color'' \<mapsto> Str ''#112233'']\<rparr>)
   \<and> colorLightIconPath (state_of
         (updateColor (svg_widget color_lamp_capabilities) (Str ''#112233''))) = None
   \<and> truthy (Bool True)
   \<and> updateColor cached_color_lamp (Bool True) =
       Threw TypeError (cached_color_lamp
               \<lparr>properties := [''color'' \<mapsto> Bool True],
                colorLightIconPath := Some (Bool True)\<rparr>)"
  by (simp add: updateColor_def updateIcon_def getIconColor_def svg_widget_def
        cached_color_lamp_def html_widget_def dom_steps Let_def)

subsection \<open>Setting the colour temperature\<close>

text \<open>
  Claim C9.  Given the string \<open>2700\<close>, \<open>setColorTemperature\<close> parses it in base 10 before
  it builds the payload: the request carries the number 2700 under \<open>colorTemperature\<close>.
\<close>

theorem setColorTemperature_parses_string:
  assumes "displayedProperties w ''colorTemperature'' = Some href"
  shows "setColorTemperature w (Str ''2700'') =
           Inr \<lparr>url = href, http_method = ''PUT'',
                payload = [(''colorTemperature'', Num (Fin 2700))]\<rparr>"
  using assms by (simp add: setColorTemperature_def parseInt_2700)

theorem setColorTemperature_parses_string_witness:
  "displayedProperties (html_widget white_lamp_capabilities) ''colorTemperature''
     = Some ''/things/lamp/properties/colorTemperature''
   \<and> setColorTemperature (html_widget white_lamp_capabilities) (Str ''2700'') =
       Inr \<lparr>url = ''/things/lamp/properties/colorTemperature'', http_method = ''PUT'',
            payload = [(''colorTemperature'', Num (Fin 2700))]\<rparr>"
proof -
  have h: "displayedProperties (html_widget white_lamp_capabilities) ''colorTemperature''
     = Some ''/things/lamp/properties/colorTemperature''"
    by (simp add: html_widget_def white_lamp_capabilities_def)
  show ?thesis using h setColorTemperature_parses_string[OF h] by simp
qed

subsection \<open>The update of \<open>colorTemperature\<close>\<close>

text \<open>
  Claim C10, as amended.  Whatever the value, a string is parsed in base 10 and the result
  (0 and NaN included) overwrites the cached \<open>colorTemperature\<close>: there is no guard on the
  value.  The icon is then recomputed, by \<open>updateIcon\<close> on the new cache, when the widget has
  its \<open>color-light\<close> element (and, in the \<open>htmlDetail\<close> format, the capability, whose
  detail is updated first).
\<close>

theorem updateColorTemperature_no_value_guard:
  "properties (state_of (updateColorTemperature w v)) =
     (properties w)(''colorTemperature'' \<mapsto>
        (case v of Str s \<Rightarrow> Num (parseInt s 10) | _ \<Rightarrow> v))
   \<and> (colorLight w \<noteq> None \<and> format w \<noteq> ''htmlDetail'' \<longrightarrow>
        updateColorTemperature w v =
          updateIcon (w\<lparr>properties := (properties w)(''colorTemperature'' \<mapsto>
                          (case v of Str s \<Rightarrow> Num (parseInt s 10) | _ \<Rightarrow> v))\<rparr>))
   \<and> (colorLight w \<noteq> None \<and> format w = ''htmlDetail''
        \<and> displayedProperties w ''colorTemperature'' \<noteq> None \<longrightarrow>
        updateColorTemperature w v =
          updateIcon (w\<lparr>properties := (properties w)(''colorTemperature'' \<mapsto>
                          (case v of Str s \<Rightarrow> Num (parseInt s 10) | _ \<Rightarrow> v)),
                        detailUpdates := detailUpdates w @ [''colorTemperature'']\<rparr>))"
  by (auto simp: updateColorTemperature_def and_then_def detail_update_def Let_def
                 properties_updateIcon split: option.splits)

theorem updateColorTemperature_no_value_guard_witness:
  "colorLight (html_widget white_lamp_capabilities) \<noteq> None
   \<and> format (html_widget white_lamp_capabilities) \<noteq> ''htmlDetail''
   \<and> properties (state_of (updateColorTemperature (html_widget white_lamp_capabilities)
         (Num (Fin 0)))) = [''colorTemperature'' \<mapsto> Num (Fin 0)]
   \<and> updateColorTemperature (html_widget white_lamp_capabilities) (Num (Fin 0)) =
       updateIcon ((html_widget white_lamp_capabilities)
                     \<lparr>properties := [''colorTemperature'' \<mapsto> Num (Fin 0)]\<rparr>)
   \<and> properties (state_of (updateColorTemperature (html_widget white_lamp_capabilities)
         (Str ''warm''))) = [''colorTemperature'' \<mapsto> Num NaN]
   \<and> updateColorTemperature (html_widget white_lamp_capabilities) (Str ''warm'') =
       updateIcon ((html_widget white_lamp_capabilities)
                     \<lparr>properties := [''colorTemperature'' \<mapsto> Num NaN]\<rparr>)"
  using
    updateColorTemperature_no_value_guard [of "html_widget white_lamp_capabilities" "Num (Fin 0)"]
    updateColorTemperature_no_value_guard [of "html_widget white_lamp_capabilities" "Str ''warm''"]
  by (simp add: html_widget_def parseInt_warm properties_updateIcon)

text \<open>
  In the \<open>svg\<close> format the value is cached and \<open>updateIcon\<close> is not run: run on that
  state, it throws.
\<close>

theorem updateColorTemperature_svg_counterexample:
  "updateColorTemperature (svg_widget white_lamp_capabilities) (Num (Fin 0)) =
     Done ((svg_widget white_lamp_capabilities)
             \<lparr>properties := [''colorTemperature'' \<mapsto> Num (Fin 0)]\<rparr>)
   \<and> updateIcon ((svg_widget white_lamp_capabilities)
                   \<lparr>properties := [''colorTemperature'' \<mapsto> Num (Fin 0)]\<rparr>)
        = Threw TypeError ((svg_widget white_lamp_capabilities)
                   \<lparr>properties := [''colorTemperature'' \<mapsto> Num (Fin 0)]\<rparr>)
   \<and> updateColorTemperature (svg_widget white_lamp_capabilities) (Num (Fin 0)) \<noteq>
       updateIcon ((svg_widget white_lamp_capabilities)
                   \<lparr>properties := [''colorTemperature'' \<mapsto> Num (Fin 0)]\<rparr>)"
  by (simp add: updateColorTemperature_def svg_widget_def updateIcon_def dom_steps Let_def)

end
